theory Spec2Isabelle
  imports Main "HOL-Library.Word"
begin

section \<open>Python values\<close>

text \<open>
  The module \<^verbatim>\<open>tensorizer/_NumpyTensor.py\<close> is glue between two libraries, torch and
  numpy.  The functions of the module are embedded as they are written; the parts of the
  two libraries that they call are modelled in the sections before them.  The constructor
  \<^verbatim>\<open>from_buffer\<close>, which builds the array over a buffer of the caller, is not embedded:
  none of the properties below concerns it.  Python names that start with an underscore
  are written with a trailing prime (\<^verbatim>\<open>_is_opaque\<close> is \<open>is_opaque'\<close>), since an
  Isabelle name cannot start with an underscore.
\<close>

type_synonym byte = "8 word"

text \<open>
  Exceptions are values: the Python exception class, with the message.  The messages of
  the exceptions that the module raises itself are verbatim, and so are Python's message
  for a missing attribute and numpy's for a string it does not understand; the other
  messages of torch are paraphrased.  The module never inspects a message, it only
  catches \<^verbatim>\<open>TypeError\<close> by class.

  \<open>Unmodelled\<close> is not an exception of Python.  It is the answer of the model of
  \<^verbatim>\<open>numpy.dtype\<close> for a string whose reading by numpy the model does not describe;
  it says nothing about what numpy does there, and every property below that speaks of
  a result of \<^verbatim>\<open>numpy.dtype\<close> is about the strings that the model reads.
\<close>

datatype error =
    NotImplementedError string
  | ValueError string
  | TypeError string
  | AttributeError string
  | RuntimeError string
  | Unmodelled string

text \<open>\<^verbatim>\<open>repr\<close> of a string without quotes or escapes in it: single quotes around it.\<close>

definition quoted :: "string \<Rightarrow> string" where
  "quoted s = [CHR 0x27] @ s @ [CHR 0x27]"

text \<open>\<^verbatim>\<open>str\<close> of an integer: decimal digits, a minus sign for a negative one.\<close>

definition digit_char :: "nat \<Rightarrow> char" where
  "digit_char n = ''0123456789'' ! n"

function str_nat :: "nat \<Rightarrow> string" where
  "str_nat n = (if n < 10 then [digit_char n] else str_nat (n div 10) @ [digit_char (n mod 10)])"
  by pat_completeness auto
termination
  by (relation "measure id") auto

declare str_nat.simps [simp del]

definition str_int :: "int \<Rightarrow> string" where
  "str_int n = (if n < 0 then ''-'' @ str_nat (nat (- n)) else str_nat (nat n))"

text \<open>
  \<^verbatim>\<open>s.replace(old, new)\<close> where \<^verbatim>\<open>old\<close> and \<^verbatim>\<open>new\<close> are one character each, as in
  both calls of the module: every occurrence is replaced.
\<close>

definition replace :: "char \<Rightarrow> char \<Rightarrow> string \<Rightarrow> string" where
  "replace old new s = map (\<lambda>c. if c = old then new else c) s"

text \<open>
  \<^verbatim>\<open>s.split(".", 1)\<close>: the string is cut at the first dot, if there is one; the result
  has one or two elements.
\<close>

definition split_dot1 :: "string \<Rightarrow> string list" where
  "split_dot1 s =
     (case dropWhile (\<lambda>c. c \<noteq> CHR ''.'') s of
        [] \<Rightarrow> [s]
      | _ # rest \<Rightarrow> [takeWhile (\<lambda>c. c \<noteq> CHR ''.'') s, rest])"


section \<open>The torch library, as far as the module uses it\<close>

text \<open>
  The dtypes of torch 2.1: those that the module's tables are written against, the
  uninterpreted bit dtypes (\<^verbatim>\<open>bits8\<close>, \<^verbatim>\<open>bits16\<close> and the packed ones), and the two
  8-bit floating-point dtypes that torch 2.1 added.  The bit dtypes and the float8 dtypes
  are dtypes that the module's tables do not list and that torch cannot convert to
  numpy; \<^verbatim>\<open>bits16\<close> has elements of two bytes, the others of one.
  (torch.bool is written \<open>bool8\<close>.)
\<close>

datatype dtype =
    float32 | float64 | float16 | bfloat16
  | complex32 | complex64 | complex128
  | uint8 | int8 | int16 | int32 | int64 | bool8
  | quint8 | qint8 | qint32 | quint4x2 | quint2x4
  | bits1x8 | bits2x4 | bits4x2 | bits8 | bits16
  | float8_e5m2 | float8_e4m3fn

text \<open>The name of a dtype in the torch namespace; \<^verbatim>\<open>str(dtype)\<close> is \<^verbatim>\<open>"torch." + name\<close>.\<close>

fun torch_name :: "dtype \<Rightarrow> string" where
  "torch_name float32 = ''float32''"
| "torch_name float64 = ''float64''"
| "torch_name float16 = ''float16''"
| "torch_name bfloat16 = ''bfloat16''"
| "torch_name complex32 = ''complex32''"
| "torch_name complex64 = ''complex64''"
| "torch_name complex128 = ''complex128''"
| "torch_name uint8 = ''uint8''"
| "torch_name int8 = ''int8''"
| "torch_name int16 = ''int16''"
| "torch_name int32 = ''int32''"
| "torch_name int64 = ''int64''"
| "torch_name bool8 = ''bool''"
| "torch_name quint8 = ''quint8''"
| "torch_name qint8 = ''qint8''"
| "torch_name qint32 = ''qint32''"
| "torch_name quint4x2 = ''quint4x2''"
| "torch_name quint2x4 = ''quint2x4''"
| "torch_name bits1x8 = ''bits1x8''"
| "torch_name bits2x4 = ''bits2x4''"
| "torch_name bits4x2 = ''bits4x2''"
| "torch_name bits8 = ''bits8''"
| "torch_name bits16 = ''bits16''"
| "torch_name float8_e5m2 = ''float8_e5m2''"
| "torch_name float8_e4m3fn = ''float8_e4m3fn''"

definition str_dtype :: "dtype \<Rightarrow> string" where
  "str_dtype d = ''torch.'' @ torch_name d"

text \<open>The size of one element in bytes (\<^verbatim>\<open>dtype.itemsize\<close>).\<close>

fun dtype_itemsize :: "dtype \<Rightarrow> nat" where
  "dtype_itemsize float32 = 4"
| "dtype_itemsize float64 = 8"
| "dtype_itemsize float16 = 2"
| "dtype_itemsize bfloat16 = 2"
| "dtype_itemsize complex32 = 4"
| "dtype_itemsize complex64 = 8"
| "dtype_itemsize complex128 = 16"
| "dtype_itemsize uint8 = 1"
| "dtype_itemsize int8 = 1"
| "dtype_itemsize int16 = 2"
| "dtype_itemsize int32 = 4"
| "dtype_itemsize int64 = 8"
| "dtype_itemsize bool8 = 1"
| "dtype_itemsize quint8 = 1"
| "dtype_itemsize qint8 = 1"
| "dtype_itemsize qint32 = 4"
| "dtype_itemsize quint4x2 = 1"
| "dtype_itemsize quint2x4 = 1"
| "dtype_itemsize bits1x8 = 1"
| "dtype_itemsize bits2x4 = 1"
| "dtype_itemsize bits4x2 = 1"
| "dtype_itemsize bits8 = 1"
| "dtype_itemsize bits16 = 2"
| "dtype_itemsize float8_e5m2 = 1"
| "dtype_itemsize float8_e4m3fn = 1"

text \<open>
  The attributes of the module \<^verbatim>\<open>torch\<close>: a dtype, or something else (a class, a
  function, a submodule).  The table holds every dtype under its name, the alias names of
  the dtypes, and some of the many attributes that are not dtypes; torch has far more of
  the latter, and a name that the table does not hold stands for a name that torch does
  not have.
\<close>

datatype attr = Dtype dtype | Other

definition all_dtypes :: "dtype list" where
  "all_dtypes =
     [float32, float64, float16, bfloat16, complex32, complex64, complex128,
      uint8, int8, int16, int32, int64, bool8,
      quint8, qint8, qint32, quint4x2, quint2x4,
      bits1x8, bits2x4, bits4x2, bits8, bits16, float8_e5m2, float8_e4m3fn]"

definition torch_namespace :: "(string \<times> attr) list" where
  "torch_namespace =
     map (\<lambda>d. (torch_name d, Dtype d)) all_dtypes @
     [(''float'', Dtype float32), (''double'', Dtype float64), (''half'', Dtype float16),
      (''chalf'', Dtype complex32), (''cfloat'', Dtype complex64),
      (''cdouble'', Dtype complex128), (''short'', Dtype int16), (''int'', Dtype int32),
      (''long'', Dtype int64),
      (''dtype'', Other), (''Tensor'', Other), (''tensor'', Other), (''nn'', Other),
      (''from_numpy'', Other), (''device'', Other), (''zeros'', Other), (''ones'', Other),
      (''empty'', Other), (''finfo'', Other), (''iinfo'', Other), (''Size'', Other),
      (''cuda'', Other), (''view_as_real'', Other)]"

definition torch_hasattr :: "string \<Rightarrow> bool" where
  "torch_hasattr name = (map_of torch_namespace name \<noteq> None)"

text \<open>\<^verbatim>\<open>getattr(torch, name)\<close>, with no default: an absent name raises AttributeError.\<close>

definition torch_getattr :: "string \<Rightarrow> error + attr" where
  "torch_getattr name =
     (case map_of torch_namespace name of
        Some a \<Rightarrow> Inr a
      | None \<Rightarrow> Inl (AttributeError (''module '' @ quoted ''torch'' @ '' has no attribute '' @ quoted name)))"

text \<open>
  A tensor: its dtype, its shape, the bytes of its elements in row-major order, the device
  that holds them, and whether it is part of a computation graph.
\<close>

datatype device = CPU | CUDA nat

record tensor =
  t_dtype :: dtype
  t_shape :: "nat list"
  t_bytes :: "byte list"
  t_device :: device
  t_requires_grad :: bool

definition element_size :: "tensor \<Rightarrow> int" where
  "element_size t = int (dtype_itemsize (t_dtype t))"

definition cpu :: "tensor \<Rightarrow> tensor" where
  "cpu t = t\<lparr>t_device := CPU\<rparr>"

definition detach :: "tensor \<Rightarrow> tensor" where
  "detach t = t\<lparr>t_requires_grad := False\<rparr>"

text \<open>
  \<^verbatim>\<open>tensor.view(dtype)\<close> relabels the bytes.  Between dtypes of one element size the
  shape stays.  Otherwise the last dimension is scaled by the ratio of the element sizes,
  which needs a last dimension, and one that the ratio divides when the elements grow.
\<close>

definition torch_view :: "tensor \<Rightarrow> dtype \<Rightarrow> error + tensor" where
  "torch_view t d =
     (let old = dtype_itemsize (t_dtype t); new = dtype_itemsize d in
      if old = new then Inr (t\<lparr>t_dtype := d\<rparr>)
      else if t_shape t = [] then
        Inl (RuntimeError ''self.dim() cannot be 0 to view a tensor as a dtype of another element size'')
      else if new < old then
        Inr (t\<lparr>t_dtype := d,
               t_shape := butlast (t_shape t) @ [last (t_shape t) * (old div new)]\<rparr>)
      else if last (t_shape t) mod (new div old) = 0 then
        Inr (t\<lparr>t_dtype := d,
               t_shape := butlast (t_shape t) @ [last (t_shape t) div (new div old)]\<rparr>)
      else
        Inl (RuntimeError ''self.size(-1) must be divisible by the ratio of the element sizes''))"


section \<open>The numpy library, as far as the module uses it\<close>

text \<open>
  A numpy dtype of one of the kinds that occur here: boolean, signed and unsigned integer,
  floating point, complex, and void (\<^verbatim>\<open>numpy.void\<close>, raw bytes of a fixed size).  Its
  byte order is little-endian, big-endian, or not applicable (one-byte and void elements).
\<close>

datatype np_kind = Kb | Ki | Ku | Kf | Kc | KV

datatype np_order = Little | Big | NotApplicable

datatype np_dtype = NpDtype (byteorder: np_order) (kind: np_kind) (itemsize: nat)

fun kind_char :: "np_kind \<Rightarrow> char" where
  "kind_char Kb = CHR ''b''"
| "kind_char Ki = CHR ''i''"
| "kind_char Ku = CHR ''u''"
| "kind_char Kf = CHR ''f''"
| "kind_char Kc = CHR ''c''"
| "kind_char KV = CHR ''V''"

fun order_char :: "np_order \<Rightarrow> char" where
  "order_char Little = CHR ''<''"
| "order_char Big = CHR ''>''"
| "order_char NotApplicable = CHR ''|''"

text \<open>\<^verbatim>\<open>dtype.str\<close>, the array-protocol type string: byte order, kind, size in bytes.\<close>

definition np_str :: "np_dtype \<Rightarrow> string" where
  "np_str d = [order_char (byteorder d), kind_char (kind d)] @ str_nat (itemsize d)"

text \<open>\<^verbatim>\<open>dtype.name\<close>: the kind's name and the size in bits.\<close>

fun np_name :: "np_dtype \<Rightarrow> string" where
  "np_name (NpDtype _ Kb n) = ''bool''"
| "np_name (NpDtype _ Ki n) = ''int'' @ str_nat (8 * n)"
| "np_name (NpDtype _ Ku n) = ''uint'' @ str_nat (8 * n)"
| "np_name (NpDtype _ Kf n) = ''float'' @ str_nat (8 * n)"
| "np_name (NpDtype _ Kc n) = ''complex'' @ str_nat (8 * n)"
| "np_name (NpDtype _ KV n) = (if n = 0 then ''void'' else ''void'' @ str_nat (8 * n))"

text \<open>
  \<^verbatim>\<open>numpy.dtype(s)\<close> for a string, on a little-endian x86-64 Linux host.  After an
  optional byte-order character the model reads
  \<^item> the array-protocol type strings of the kinds above, which are the strings that the
    module writes and reads back: the kind character and the size in decimal digits
    (\<^verbatim>\<open><f4\<close>, \<^verbatim>\<open>|V1\<close>, \<^verbatim>\<open>V16\<close>); a size that numpy does not have for the kind is not
    understood (\<^verbatim>\<open>i3\<close>), and void has every size;
  \<^item> the one-character type codes of the dtypes of these kinds (\<^verbatim>\<open>i\<close> is the C int,
    \<^verbatim>\<open>d\<close> the double, \<^verbatim>\<open>V\<close> the void dtype of size 0).
  The empty string, and a byte-order character alone, are not understood.  numpy
  understands further spellings (type names such as \<^verbatim>\<open>void\<close> and \<^verbatim>\<open>float32\<close>,
  comma-separated and sub-array specifications, the kinds of strings, dates and
  objects); the model does not describe them, nor a size beyond the C int, and answers
  \<open>Unmodelled\<close> there.
\<close>

definition is_digit :: "char \<Rightarrow> bool" where
  "is_digit c = (c \<in> set ''0123456789'')"

definition digit_val :: "char \<Rightarrow> nat" where
  "digit_val c = of_char c - 48"

definition parse_nat :: "string \<Rightarrow> nat option" where
  "parse_nat s =
     (if s = [] \<or> \<not> list_all is_digit s then None
      else Some (foldl (\<lambda>a c. 10 * a + digit_val c) 0 s))"

fun kind_of_char :: "char \<Rightarrow> np_kind option" where
  "kind_of_char c =
     (if c = CHR ''b'' then Some Kb else if c = CHR ''i'' then Some Ki
      else if c = CHR ''u'' then Some Ku else if c = CHR ''f'' then Some Kf
      else if c = CHR ''c'' then Some Kc else if c = CHR ''V'' then Some KV
      else None)"

fun valid_size :: "np_kind \<Rightarrow> nat \<Rightarrow> bool" where
  "valid_size Kb n = (n = 1)"
| "valid_size Ki n = (n \<in> {1, 2, 4, 8})"
| "valid_size Ku n = (n \<in> {1, 2, 4, 8})"
| "valid_size Kf n = (n \<in> {2, 4, 8, 16})"
| "valid_size Kc n = (n \<in> {8, 16, 32})"
| "valid_size KV n = True"

definition is_order_char :: "char \<Rightarrow> bool" where
  "is_order_char c = (c \<in> set ''<>|='')"

definition strip_order :: "string \<Rightarrow> char option \<times> string" where
  "strip_order s =
     (case s of
        [] \<Rightarrow> (None, s)
      | c # cs \<Rightarrow> if is_order_char c then (Some c, cs) else (None, s))"

definition order_of :: "char option \<Rightarrow> np_kind \<Rightarrow> nat \<Rightarrow> np_order" where
  "order_of bo k n =
     (if k = KV \<or> n = 1 then NotApplicable
      else if bo = Some CHR ''>'' then Big else Little)"

definition not_understood :: "string \<Rightarrow> error" where
  "not_understood s = TypeError (''data type '' @ quoted s @ '' not understood'')"

definition type_code :: "char \<rightharpoonup> np_kind \<times> nat" where
  "type_code =
     map_of [(CHR ''?'', (Kb, 1)),
             (CHR ''b'', (Ki, 1)), (CHR ''B'', (Ku, 1)), (CHR ''h'', (Ki, 2)),
             (CHR ''H'', (Ku, 2)), (CHR ''i'', (Ki, 4)), (CHR ''I'', (Ku, 4)),
             (CHR ''l'', (Ki, 8)), (CHR ''L'', (Ku, 8)), (CHR ''q'', (Ki, 8)),
             (CHR ''Q'', (Ku, 8)), (CHR ''p'', (Ki, 8)), (CHR ''P'', (Ku, 8)),
             (CHR ''e'', (Kf, 2)), (CHR ''f'', (Kf, 4)), (CHR ''d'', (Kf, 8)),
             (CHR ''g'', (Kf, 16)),
             (CHR ''F'', (Kc, 8)), (CHR ''D'', (Kc, 16)), (CHR ''G'', (Kc, 32)),
             (CHR ''V'', (KV, 0))]"

definition max_elsize :: nat where
  "max_elsize = 2147483647"

definition numpy_dtype_of_str :: "string \<Rightarrow> error + np_dtype" where
  "numpy_dtype_of_str s =
     (case strip_order s of (bo, rest) \<Rightarrow>
        (case rest of
           [] \<Rightarrow> Inl (not_understood s)
         | c # ds \<Rightarrow>
             if ds = [] then
               (case type_code c of
                  Some (k, n) \<Rightarrow> Inr (NpDtype (order_of bo k n) k n)
                | None \<Rightarrow> Inl (Unmodelled s))
             else
               (case (kind_of_char c, parse_nat ds) of
                  (Some k, Some n) \<Rightarrow>
                    if max_elsize < n then Inl (Unmodelled s)
                    else if valid_size k n then Inr (NpDtype (order_of bo k n) k n)
                    else Inl (not_understood s)
                | _ \<Rightarrow> Inl (Unmodelled s))))"

text \<open>An array: its dtype, its shape, and the bytes of its elements in row-major order.\<close>

record ndarray =
  a_dtype :: np_dtype
  a_shape :: "nat list"
  a_bytes :: "byte list"

text \<open>
  \<^verbatim>\<open>numpy.empty(shape, dtype)\<close>: the contents are not initialised (zero bytes here); the
  module reads only the dtype of the result.
\<close>

definition numpy_empty :: "nat list \<Rightarrow> np_dtype \<Rightarrow> ndarray" where
  "numpy_empty shp d =
     \<lparr>a_dtype = d, a_shape = shp, a_bytes = replicate (prod_list shp * itemsize d) 0\<rparr>"


section \<open>Conversions between torch and numpy\<close>

text \<open>The dtypes that torch converts to numpy and back, as kind and size.\<close>

fun aten_to_numpy :: "dtype \<Rightarrow> (np_kind \<times> nat) option" where
  "aten_to_numpy float64 = Some (Kf, 8)"
| "aten_to_numpy float32 = Some (Kf, 4)"
| "aten_to_numpy float16 = Some (Kf, 2)"
| "aten_to_numpy complex64 = Some (Kc, 8)"
| "aten_to_numpy complex128 = Some (Kc, 16)"
| "aten_to_numpy int64 = Some (Ki, 8)"
| "aten_to_numpy int32 = Some (Ki, 4)"
| "aten_to_numpy int16 = Some (Ki, 2)"
| "aten_to_numpy int8 = Some (Ki, 1)"
| "aten_to_numpy uint8 = Some (Ku, 1)"
| "aten_to_numpy bool8 = Some (Kb, 1)"
| "aten_to_numpy _ = None"

definition numpy_to_aten :: "np_kind \<times> nat \<Rightarrow> dtype option" where
  "numpy_to_aten kn = find (\<lambda>d. aten_to_numpy d = Some kn) all_dtypes"

definition native_dtype :: "np_kind \<Rightarrow> nat \<Rightarrow> np_dtype" where
  "native_dtype k n = NpDtype (order_of None k n) k n"

text \<open>
  \<^verbatim>\<open>tensor.numpy()\<close>: an array of the corresponding dtype over the same bytes.  It needs
  a tensor on the host that is not part of a graph, and a dtype that numpy has;
  otherwise it raises, a TypeError for the device and the dtype.
\<close>

definition torch_numpy :: "tensor \<Rightarrow> error + ndarray" where
  "torch_numpy t =
     (if t_device t \<noteq> CPU then
        Inl (TypeError ''cannot convert a tensor that is not on the host to numpy; use Tensor.cpu() first'')
      else if t_requires_grad t then
        Inl (RuntimeError ''cannot call numpy() on a Tensor that requires grad; use tensor.detach().numpy() instead'')
      else
        (case aten_to_numpy (t_dtype t) of
           None \<Rightarrow> Inl (TypeError (''Got unsupported ScalarType '' @ torch_name (t_dtype t)))
         | Some (k, n) \<Rightarrow>
             Inr \<lparr>a_dtype = native_dtype k n, a_shape = t_shape t, a_bytes = t_bytes t\<rparr>))"

text \<open>
  \<^verbatim>\<open>torch.from_numpy(arr)\<close>: a host tensor of the corresponding dtype over the same
  bytes.  It raises a ValueError for an array in the other byte order, and a TypeError
  for a dtype that torch does not have.
\<close>

definition torch_from_numpy :: "ndarray \<Rightarrow> error + tensor" where
  "torch_from_numpy arr =
     (if byteorder (a_dtype arr) = Big then
        Inl (ValueError ''given numpy array has byte order different from the native byte order. Conversion between byte orders is currently not supported.'')
      else
        (case numpy_to_aten (kind (a_dtype arr), itemsize (a_dtype arr)) of
           None \<Rightarrow>
             Inl (TypeError (''cannot convert np.ndarray of type numpy.'' @ np_name (a_dtype arr)))
         | Some d \<Rightarrow>
             Inr \<lparr>t_dtype = d, t_shape = a_shape arr, t_bytes = a_bytes arr,
                  t_device = CPU, t_requires_grad = False\<rparr>))"


section \<open>The module: tables\<close>

text \<open>\<^verbatim>\<open>_INTERMEDIATE_MAPPING\<close>: the integer dtype of each element size.\<close>

definition INTERMEDIATE_MAPPING' :: "int \<rightharpoonup> dtype" where
  "INTERMEDIATE_MAPPING' = map_of [(1, int8), (2, int16), (4, int32), (8, int64)]"

text \<open>
  The two sets of dtypes are built from lists of names, keeping the names that the
  installed torch has.  A Python set; here a list, used through \<open>set\<close> and, for
  \<^verbatim>\<open>_DECODE_MAPPING\<close>, iterated.
\<close>

definition dtypes_named :: "string list \<Rightarrow> dtype list" where
  "dtypes_named names =
     concat (map (\<lambda>t. if torch_hasattr t
                       then (case torch_getattr t of Inr (Dtype d) \<Rightarrow> [d] | _ \<Rightarrow> [])
                       else []) names)"

definition ASYMMETRIC_TYPES' :: "dtype list" where
  "ASYMMETRIC_TYPES' =
     dtypes_named [''bfloat16'', ''quint8'', ''qint8'', ''qint32'', ''quint4x2'',
                   ''quint2x4'', ''complex32'']"

definition UNSUPPORTED_TYPES' :: "dtype list" where
  "UNSUPPORTED_TYPES' =
     dtypes_named [''quint8'', ''qint8'', ''qint32'', ''quint4x2'', ''quint2x4'']"

definition DECODE_MAPPING' :: "string \<rightharpoonup> dtype" where
  "DECODE_MAPPING' = map_of (map (\<lambda>t. (str_dtype t, t)) ASYMMETRIC_TYPES')"


section \<open>The module: the class \<^verbatim>\<open>_NumpyTensor\<close>\<close>

text \<open>
  The field \<^verbatim>\<open>torch_dtype\<close> is declared \<^verbatim>\<open>Optional[str]\<close>; Python does not enforce the
  declaration, and the module itself tests the field for being a string, so the field is
  a Python value: None, a string, or a dtype object.
\<close>

datatype py_value = PyNone | PyStr string | PyDtype dtype

text \<open>The truth value of such a value: None and the empty string are false.\<close>

fun truthy :: "py_value \<Rightarrow> bool" where
  "truthy PyNone = False"
| "truthy (PyStr s) = (s \<noteq> [])"
| "truthy (PyDtype d) = True"

record NumpyTensor =
  data :: ndarray
  numpy_dtype :: string
  torch_dtype :: py_value

text \<open>\<^verbatim>\<open>_is_opaque\<close>: \<^verbatim>\<open>numpy.dtype(numpy_dtype).type == numpy.void\<close>.\<close>

definition is_opaque' :: "string \<Rightarrow> error + bool" where
  "is_opaque' s =
     (case numpy_dtype_of_str s of
        Inl e \<Rightarrow> Inl e
      | Inr d \<Rightarrow> Inr (kind d = KV))"

text \<open>The property \<^verbatim>\<open>is_opaque\<close>.\<close>

definition is_opaque :: "NumpyTensor \<Rightarrow> error + bool" where
  "is_opaque self = is_opaque' (numpy_dtype self)"

text \<open>\<^verbatim>\<open>_is_asymmetric\<close>.\<close>

definition is_asymmetric' :: "dtype \<Rightarrow> bool" where
  "is_asymmetric' d = (d \<in> set ASYMMETRIC_TYPES')"

text \<open>\<^verbatim>\<open>_intermediate_type\<close>: the KeyError of the lookup becomes a ValueError.\<close>

definition intermediate_type' :: "int \<Rightarrow> error + dtype" where
  "intermediate_type' sz =
     (case INTERMEDIATE_MAPPING' sz of
        Some d \<Rightarrow> Inr d
      | None \<Rightarrow>
          Inl (ValueError (''Cannot create a numpy array with opaque elements of size''
                           @ '' '' @ str_int sz @ '' bytes'')))"

text \<open>\<^verbatim>\<open>_decoder_dtype\<close>.\<close>

definition decoder_dtype' :: "string \<Rightarrow> error + string" where
  "decoder_dtype' s =
     (case is_opaque' s of
        Inl e \<Rightarrow> Inl e
      | Inr opaque \<Rightarrow>
          if opaque then Inr (replace (CHR ''V'') (CHR ''i'') s) else Inr s)"

text \<open>
  \<^verbatim>\<open>_decode_torch_dtype\<close>.  The table is looked up first; a key that is not a string is
  not in it.  \<^verbatim>\<open>module, *dtype_name = ...\<close> takes the first element of the split and
  the list of the others.
\<close>

definition decode_torch_dtype' :: "NumpyTensor \<Rightarrow> error + dtype" where
  "decode_torch_dtype' self =
     (case (case torch_dtype self of PyStr s \<Rightarrow> DECODE_MAPPING' s | _ \<Rightarrow> None) of
        Some d \<Rightarrow> Inr d
      | None \<Rightarrow>
          if \<not> truthy (torch_dtype self) then
            Inl (ValueError ''Cannot decode an empty dtype.'')
          else
            (case torch_dtype self of
               PyStr s \<Rightarrow>
                 (case split_dot1 s of
                    [] \<Rightarrow> Inl (ValueError ''not enough values to unpack (expected at least 1, got 0)'')
                  | module # dtype_name \<Rightarrow>
                      if module \<noteq> ''torch'' \<or> length dtype_name \<noteq> 1 then
                        Inl (ValueError (''Invalid torch_dtype: '' @ s))
                      else
                        (case torch_getattr (dtype_name ! 0) of
                           Inl e \<Rightarrow> Inl e
                         | Inr (Dtype d) \<Rightarrow> Inr d
                         | Inr Other \<Rightarrow> Inl (ValueError (''Invalid torch_dtype: '' @ s))))
             | _ \<Rightarrow> Inl (TypeError ''torch_dtype must be a string.'')))"

text \<open>
  \<^verbatim>\<open>from_tensor\<close>.  The first part is the conversion that is tried for a dtype that is
  not asymmetric: \<open>None\<close> stands for the TypeError that the \<^verbatim>\<open>except\<close> clause catches,
  after which the function goes on to the second part, the opaque encoding.  Any other
  exception leaves the function.
\<close>

definition native_encoding :: "tensor \<Rightarrow> string \<Rightarrow> (error + NumpyTensor) option" where
  "native_encoding tensor torch_dtype_str =
     (case torch_numpy tensor of
        Inl (TypeError m) \<Rightarrow> None
      | Inl e \<Rightarrow> Some (Inl e)
      | Inr arr \<Rightarrow>
          Some (Inr \<lparr>data = arr, numpy_dtype = np_str (a_dtype arr),
                     torch_dtype = PyStr torch_dtype_str\<rparr>))"

definition opaque_encoding :: "tensor \<Rightarrow> string \<Rightarrow> error + NumpyTensor" where
  "opaque_encoding tensor torch_dtype_str =
     (let sz = element_size tensor in
      case intermediate_type' sz of
        Inl e \<Rightarrow> Inl e
      | Inr it \<Rightarrow>
          (case torch_view tensor it of
             Inl e \<Rightarrow> Inl e
           | Inr v \<Rightarrow>
               (case torch_numpy v of
                  Inl e \<Rightarrow> Inl e
                | Inr arr \<Rightarrow>
                    Inr \<lparr>data = arr,
                         numpy_dtype = replace (CHR ''i'') (CHR ''V'') (np_str (a_dtype arr)),
                         torch_dtype = PyStr torch_dtype_str\<rparr>)))"

definition from_tensor :: "tensor \<Rightarrow> error + NumpyTensor" where
  "from_tensor tensor0 =
     (if t_dtype tensor0 \<in> set UNSUPPORTED_TYPES' then
        Inl (NotImplementedError
               (''Serialization for '' @ str_dtype (t_dtype tensor0) @ '' is not implemented.''))
      else
        let torch_dtype_str = str_dtype (t_dtype tensor0);
            tensor = detach (cpu tensor0)
        in
          case (if \<not> is_asymmetric' (t_dtype tensor)
                then native_encoding tensor torch_dtype_str else None) of
            Some r \<Rightarrow> r
          | None \<Rightarrow> opaque_encoding tensor torch_dtype_str)"

text \<open>
  \<^verbatim>\<open>from_array\<close>.  A TypeError of the probe is raised again with the module's message;
  any other exception leaves the function.  The field \<^verbatim>\<open>torch_dtype\<close> receives the
  dtype of the probe tensor, which is a dtype object.
\<close>

definition from_array :: "ndarray \<Rightarrow> error + NumpyTensor" where
  "from_array arr =
     (case torch_from_numpy (numpy_empty [] (a_dtype arr)) of
        Inl (TypeError m) \<Rightarrow>
          Inl (TypeError (''Cannot serialize an array with dtype '' @ np_name (a_dtype arr)
                          @ '' as a _NumpyTensor.''))
      | Inl e \<Rightarrow> Inl e
      | Inr test_tensor \<Rightarrow>
          Inr \<lparr>data = arr, numpy_dtype = np_str (a_dtype arr),
               torch_dtype = PyDtype (t_dtype test_tensor)\<rparr>)"

text \<open>\<^verbatim>\<open>to_tensor\<close>.\<close>

definition to_tensor :: "NumpyTensor \<Rightarrow> error + tensor" where
  "to_tensor self =
     (case is_opaque self of
        Inl e \<Rightarrow> Inl e
      | Inr opaque \<Rightarrow>
          if \<not> opaque then torch_from_numpy (data self)
          else if \<not> truthy (torch_dtype self) then
            Inl (ValueError (''Tried to decode a tensor stored as opaque data, but no''
                             @ '' torch dtype was specified''))
          else
            (case torch_from_numpy (data self) of
               Inl e \<Rightarrow> Inl e
             | Inr tensor_view \<Rightarrow>
                 (case decode_torch_dtype' self of
                    Inl e \<Rightarrow> Inl e
                  | Inr d \<Rightarrow> torch_view tensor_view d)))"

text \<open>
  Whether \<^verbatim>\<open>from_tensor\<close>, past its first check, goes on to the opaque encoding: the
  dtype is asymmetric, or the conversion that was tried raised a TypeError.
\<close>

definition takes_opaque_path :: "tensor \<Rightarrow> bool" where
  "takes_opaque_path tensor0 =
     (let torch_dtype_str = str_dtype (t_dtype tensor0);
          tensor = detach (cpu tensor0)
      in (if \<not> is_asymmetric' (t_dtype tensor)
          then native_encoding tensor torch_dtype_str else None) = None)"


section \<open>Example values\<close>

text \<open>
  Values on which the theorems below are evaluated.  Tensors: two float32 elements on a
  GPU and inside a graph, two bfloat16 elements, three float8 elements, three bits16
  elements.  A float32 array,
  and three values of the class: one with a malformed \<^verbatim>\<open>torch_dtype\<close>, and the encodings
  of the float32 and of the bfloat16 tensor.
\<close>

definition example_f32 :: tensor where
  "example_f32 = \<lparr>t_dtype = float32, t_shape = [2], t_bytes = [0, 0, 128, 63, 0, 0, 0, 64],
                   t_device = CUDA 0, t_requires_grad = True\<rparr>"

definition example_bf16 :: tensor where
  "example_bf16 = \<lparr>t_dtype = bfloat16, t_shape = [2], t_bytes = [128, 63, 0, 64],
                    t_device = CPU, t_requires_grad = False\<rparr>"

definition example_f8 :: tensor where
  "example_f8 = \<lparr>t_dtype = float8_e5m2, t_shape = [3], t_bytes = [60, 64, 66],
                  t_device = CPU, t_requires_grad = False\<rparr>"

definition example_bits16 :: tensor where
  "example_bits16 = \<lparr>t_dtype = bits16, t_shape = [3], t_bytes = [1, 0, 2, 0, 3, 0],
                      t_device = CPU, t_requires_grad = False\<rparr>"

definition example_tagged :: NumpyTensor where
  "example_tagged =
     \<lparr>data = \<lparr>a_dtype = NpDtype Little Kf 4, a_shape = [2],
               a_bytes = [0, 0, 128, 63, 0, 0, 0, 64]\<rparr>,
      numpy_dtype = ''<f4'', torch_dtype = PyStr ''bogus''\<rparr>"

definition example_array :: ndarray where
  "example_array = \<lparr>a_dtype = NpDtype Little Kf 4, a_shape = [2],
                     a_bytes = [0, 0, 128, 63, 0, 0, 0, 64]\<rparr>"

definition example_native :: NumpyTensor where
  "example_native = \<lparr>data = example_array, numpy_dtype = ''<f4'',
                      torch_dtype = PyStr ''torch.float32''\<rparr>"

definition example_opaque :: NumpyTensor where
  "example_opaque =
     \<lparr>data = \<lparr>a_dtype = NpDtype Little Ki 2, a_shape = [2], a_bytes = [128, 63, 0, 64]\<rparr>,
      numpy_dtype = ''<V2'', torch_dtype = PyStr ''torch.bfloat16''\<rparr>"


section \<open>Facts about strings and the library model\<close>

lemma str_nat_values:
  "str_nat 1 = ''1''" "str_nat 2 = ''2''" "str_nat 4 = ''4''" "str_nat 8 = ''8''"
  "str_nat 16 = ''16''" "str_nat 3 = ''3''"
  by (simp_all add: str_nat.simps digit_char_def)

lemma torch_hasattr_names:
  "torch_hasattr ''bfloat16''" "torch_hasattr ''quint8''" "torch_hasattr ''qint8''"
  "torch_hasattr ''qint32''" "torch_hasattr ''quint4x2''" "torch_hasattr ''quint2x4''"
  "torch_hasattr ''complex32''"
  by (simp_all add: torch_hasattr_def torch_namespace_def all_dtypes_def)

lemma torch_getattr_names:
  "torch_getattr ''bfloat16'' = Inr (Dtype bfloat16)"
  "torch_getattr ''quint8'' = Inr (Dtype quint8)"
  "torch_getattr ''qint8'' = Inr (Dtype qint8)"
  "torch_getattr ''qint32'' = Inr (Dtype qint32)"
  "torch_getattr ''quint4x2'' = Inr (Dtype quint4x2)"
  "torch_getattr ''quint2x4'' = Inr (Dtype quint2x4)"
  "torch_getattr ''complex32'' = Inr (Dtype complex32)"
  by (simp_all add: torch_getattr_def torch_namespace_def all_dtypes_def)

lemma ASYMMETRIC_TYPES'_eq:
  "ASYMMETRIC_TYPES' = [bfloat16, quint8, qint8, qint32, quint4x2, quint2x4, complex32]"
  by (simp add: ASYMMETRIC_TYPES'_def dtypes_named_def torch_hasattr_names torch_getattr_names)

lemma UNSUPPORTED_TYPES'_eq:
  "UNSUPPORTED_TYPES' = [quint8, qint8, qint32, quint4x2, quint2x4]"
  by (simp add: UNSUPPORTED_TYPES'_def dtypes_named_def torch_hasattr_names torch_getattr_names)

lemma unsupported_asymmetric: "d \<in> set UNSUPPORTED_TYPES' \<Longrightarrow> is_asymmetric' d"
  by (auto simp add: is_asymmetric'_def ASYMMETRIC_TYPES'_eq UNSUPPORTED_TYPES'_eq)

lemma numpy_to_aten_inverse: "aten_to_numpy d = Some kn \<Longrightarrow> numpy_to_aten kn = Some d"
  by (cases d) (auto simp add: numpy_to_aten_def all_dtypes_def)

lemma aten_to_numpy_asymmetric: "is_asymmetric' d \<Longrightarrow> aten_to_numpy d = None"
  by (auto simp add: is_asymmetric'_def ASYMMETRIC_TYPES'_eq)

lemma digits_below_ten: "n < 10 \<Longrightarrow> n \<in> {0, 1, 2, 3, 4, 5, 6, 7, 8, 9::nat}"
  by auto

lemma digit_char_is_digit: "n < 10 \<Longrightarrow> is_digit (digit_char n)"
  using digits_below_ten [of n] by (auto simp add: digit_char_def is_digit_def)

lemma str_nat_digits: "list_all is_digit (str_nat n)"
proof (induction n rule: str_nat.induct)
  case (1 n)
  show ?case
  proof (cases "n < 10")
    case True
    then show ?thesis by (simp add: str_nat.simps [of n] digit_char_is_digit)
  next
    case False
    with 1 have "list_all is_digit (str_nat (n div 10))" by simp
    moreover have "is_digit (digit_char (n mod 10))" by (simp add: digit_char_is_digit)
    ultimately show ?thesis using False by (simp add: str_nat.simps [of n])
  qed
qed

lemma str_nat_not_Nil: "str_nat n \<noteq> []"
  by (simp add: str_nat.simps [of n])

lemma digit_val_digit_char: "n < 10 \<Longrightarrow> digit_val (digit_char n) = n"
  using digits_below_ten [of n] by (auto simp add: digit_char_def digit_val_def)

lemma foldl_str_nat: "foldl (\<lambda>a c. 10 * a + digit_val c) 0 (str_nat n) = n"
proof (induction n rule: str_nat.induct)
  case (1 n)
  show ?case
  proof (cases "n < 10")
    case True
    then show ?thesis by (simp add: str_nat.simps [of n] digit_val_digit_char)
  next
    case False
    with 1 have "foldl (\<lambda>a c. 10 * a + digit_val c) 0 (str_nat (n div 10)) = n div 10"
      by simp
    then show ?thesis
      using False by (simp add: str_nat.simps [of n] digit_val_digit_char)
  qed
qed

lemma parse_nat_str_nat: "parse_nat (str_nat n) = Some n"
  by (simp add: parse_nat_def str_nat_not_Nil str_nat_digits foldl_str_nat)

lemma is_order_char_order_char: "is_order_char (order_char ord)"
  by (cases ord) (simp_all add: is_order_char_def)

lemma kind_of_char_kind_char: "kind_of_char (kind_char k) = Some k"
  by (cases k) simp_all

lemma dtype_itemsize_small [simp]: "dtype_itemsize d \<le> max_elsize"
  by (cases d) (simp_all add: max_elsize_def)

lemma numpy_dtype_of_str_np_str:
  "valid_size k n \<Longrightarrow> n \<le> max_elsize \<Longrightarrow>
   numpy_dtype_of_str (np_str (NpDtype ord k n)) =
     Inr (NpDtype (order_of (Some (order_char ord)) k n) k n)"
  by (simp add: numpy_dtype_of_str_def np_str_def strip_order_def is_order_char_order_char
      kind_of_char_kind_char parse_nat_str_nat str_nat_not_Nil
      del: kind_of_char.simps valid_size.simps)

lemma order_of_native: "order_of (Some (order_char (order_of None k n))) k n = order_of None k n"
  by (simp add: order_of_def)

lemma aten_to_numpy_valid:
  "aten_to_numpy d = Some (k, n) \<Longrightarrow> valid_size k n \<and> n \<le> max_elsize \<and> k \<noteq> KV"
  by (cases d) (auto simp add: max_elsize_def)

lemma replace_digits: "list_all is_digit s \<Longrightarrow> \<not> is_digit a \<Longrightarrow> replace a b s = s"
  by (induction s) (auto simp add: replace_def)

lemma replace_Cons: "replace a b (c # s) = (if c = a then b else c) # replace a b s"
  by (simp add: replace_def)

lemma not_digit_markers: "\<not> is_digit CHR ''i''" "\<not> is_digit CHR ''V''"
  by (simp_all add: is_digit_def)

lemma replace_np_str_int:
  "replace (CHR ''i'') (CHR ''V'') (np_str (NpDtype ord Ki n)) = np_str (NpDtype ord KV n)"
  by (cases ord) (simp_all add: np_str_def replace_Cons replace_digits str_nat_digits not_digit_markers)

lemma replace_np_str_void:
  "replace (CHR ''V'') (CHR ''i'') (np_str (NpDtype ord KV n)) = np_str (NpDtype ord Ki n)"
  by (cases ord) (simp_all add: np_str_def replace_Cons replace_digits str_nat_digits not_digit_markers)

lemma is_opaque'_np_str:
  "valid_size k n \<Longrightarrow> n \<le> max_elsize \<Longrightarrow> is_opaque' (np_str (NpDtype ord k n)) = Inr (k = KV)"
  by (simp add: is_opaque'_def numpy_dtype_of_str_np_str del: valid_size.simps)

lemma is_opaque'_native:
  "valid_size k n \<Longrightarrow> n \<le> max_elsize \<Longrightarrow> is_opaque' (np_str (native_dtype k n)) = Inr (k = KV)"
  by (simp add: native_dtype_def is_opaque'_np_str del: valid_size.simps)

lemma torch_numpy_host:
  "torch_numpy (detach (cpu t)) =
     (case aten_to_numpy (t_dtype t) of
        None \<Rightarrow> Inl (TypeError (''Got unsupported ScalarType '' @ torch_name (t_dtype t)))
      | Some (k, n) \<Rightarrow>
          Inr \<lparr>a_dtype = native_dtype k n, a_shape = t_shape t, a_bytes = t_bytes t\<rparr>)"
  by (simp add: torch_numpy_def cpu_def detach_def split: option.split)

lemma native_encoding_host:
  "native_encoding (detach (cpu t)) s =
     (case aten_to_numpy (t_dtype t) of
        None \<Rightarrow> None
      | Some (k, n) \<Rightarrow>
          Some (Inr \<lparr>data = \<lparr>a_dtype = native_dtype k n, a_shape = t_shape t, a_bytes = t_bytes t\<rparr>,
                     numpy_dtype = np_str (native_dtype k n), torch_dtype = PyStr s\<rparr>))"
  by (simp add: native_encoding_def torch_numpy_host split: option.splits)

lemma t_dtype_host: "t_dtype (detach (cpu t)) = t_dtype t"
  by (simp add: cpu_def detach_def)

lemma from_tensor_native:
  assumes "aten_to_numpy (t_dtype t) = Some (k, n)"
  shows "from_tensor t =
     Inr \<lparr>data = \<lparr>a_dtype = native_dtype k n, a_shape = t_shape t, a_bytes = t_bytes t\<rparr>,
          numpy_dtype = np_str (native_dtype k n), torch_dtype = PyStr (str_dtype (t_dtype t))\<rparr>"
proof -
  from assms have na: "\<not> is_asymmetric' (t_dtype t)"
    using aten_to_numpy_asymmetric by fastforce
  then have "t_dtype t \<notin> set UNSUPPORTED_TYPES'"
    using unsupported_asymmetric by blast
  with na assms show ?thesis
    by (simp add: from_tensor_def Let_def t_dtype_host native_encoding_host)
qed

lemma from_tensor_opaque:
  assumes "t_dtype t \<notin> set UNSUPPORTED_TYPES'" and "aten_to_numpy (t_dtype t) = None"
  shows "from_tensor t = opaque_encoding (detach (cpu t)) (str_dtype (t_dtype t))"
  using assms by (simp add: from_tensor_def Let_def t_dtype_host native_encoding_host)

lemma INTERMEDIATE_MAPPING'_Some:
  "INTERMEDIATE_MAPPING' sz = Some it \<Longrightarrow>
     int (dtype_itemsize it) = sz \<and> aten_to_numpy it = Some (Ki, dtype_itemsize it)
     \<and> valid_size Ki (dtype_itemsize it)"
  by (auto simp add: INTERMEDIATE_MAPPING'_def split: if_splits)

lemma INTERMEDIATE_MAPPING'_None:
  "sz \<notin> {1, 2, 4, 8} \<Longrightarrow> INTERMEDIATE_MAPPING' sz = None"
  by (simp add: INTERMEDIATE_MAPPING'_def)

lemma opaque_encoding_host:
  assumes "INTERMEDIATE_MAPPING' (int (dtype_itemsize (t_dtype t))) = Some it"
  shows "opaque_encoding (detach (cpu t)) s =
     Inr \<lparr>data = \<lparr>a_dtype = native_dtype Ki (dtype_itemsize (t_dtype t)),
                   a_shape = t_shape t, a_bytes = t_bytes t\<rparr>,
          numpy_dtype = np_str (NpDtype (order_of None Ki (dtype_itemsize (t_dtype t))) KV
                                  (dtype_itemsize (t_dtype t))),
          torch_dtype = PyStr s\<rparr>"
proof -
  from INTERMEDIATE_MAPPING'_Some [OF assms]
  have sz: "dtype_itemsize it = dtype_itemsize (t_dtype t)"
    and np: "aten_to_numpy it = Some (Ki, dtype_itemsize it)"
    by simp_all
  have view: "torch_view (detach (cpu t)) it = Inr ((detach (cpu t))\<lparr>t_dtype := it\<rparr>)"
    by (simp add: torch_view_def t_dtype_host sz)
  have num: "torch_numpy ((detach (cpu t))\<lparr>t_dtype := it\<rparr>) =
      Inr \<lparr>a_dtype = native_dtype Ki (dtype_itemsize (t_dtype t)),
           a_shape = t_shape t, a_bytes = t_bytes t\<rparr>"
    using np by (simp add: torch_numpy_def cpu_def detach_def sz)
  show ?thesis
    using assms
    by (simp add: opaque_encoding_def element_size_def t_dtype_host intermediate_type'_def
        view num native_dtype_def replace_np_str_int)
qed


section \<open>Rejection of the unsupported dtypes\<close>

text \<open>
  Claim C3.  For every tensor whose dtype is in the unsupported set (the quantized dtypes,
  see \<open>UNSUPPORTED_TYPES'_eq\<close>), \<^verbatim>\<open>from_tensor\<close> raises NotImplementedError, whatever the
  shape, the bytes, the device and the graph state of the tensor are, and so returns no
  \<^verbatim>\<open>_NumpyTensor\<close>.
\<close>

theorem from_tensor_unsupported:
  assumes "t_dtype t \<in> set UNSUPPORTED_TYPES'"
  shows "from_tensor t =
           Inl (NotImplementedError
                  (''Serialization for '' @ str_dtype (t_dtype t) @ '' is not implemented.''))
         \<and> (\<forall>ta. from_tensor t \<noteq> Inr ta)"
  using assms by (simp add: from_tensor_def)

theorem from_tensor_unsupported_witness:
  "quint8 \<in> set UNSUPPORTED_TYPES'
   \<and> from_tensor \<lparr>t_dtype = quint8, t_shape = [2], t_bytes = [7, 9], t_device = CPU,
                   t_requires_grad = False\<rparr>
       = Inl (NotImplementedError ''Serialization for torch.quint8 is not implemented.'')"
proof -
  have h: "t_dtype \<lparr>t_dtype = quint8, t_shape = [2], t_bytes = [7, 9], t_device = CPU,
                    t_requires_grad = False\<rparr> \<in> set UNSUPPORTED_TYPES'"
    by (simp add: UNSUPPORTED_TYPES'_eq)
  show ?thesis
    using from_tensor_unsupported [OF h] by (simp add: UNSUPPORTED_TYPES'_eq str_dtype_def)
qed


section \<open>Rejection of element sizes without an integer stand-in\<close>

text \<open>
  Claim C4.  \<^verbatim>\<open>_intermediate_type\<close> raises ValueError for every size other than 1, 2, 4
  and 8 (sizes 3 and 16 among them), and so does the opaque encoding of every tensor
  whose element size is not one of the four.
\<close>

theorem opaque_width_rejection:
  "(sz \<notin> {1, 2, 4, 8} \<longrightarrow>
      intermediate_type' sz =
        Inl (ValueError (''Cannot create a numpy array with opaque elements of size ''
                         @ str_int sz @ '' bytes'')))
   \<and> (element_size t \<notin> {1, 2, 4, 8} \<longrightarrow>
      opaque_encoding t s =
        Inl (ValueError (''Cannot create a numpy array with opaque elements of size ''
                         @ str_int (element_size t) @ '' bytes'')))"
  by (simp add: opaque_encoding_def intermediate_type'_def INTERMEDIATE_MAPPING'_None Let_def)

theorem opaque_width_rejection_witness:
  "intermediate_type' 3 =
     Inl (ValueError ''Cannot create a numpy array with opaque elements of size 3 bytes'')
   \<and> intermediate_type' 16 =
     Inl (ValueError ''Cannot create a numpy array with opaque elements of size 16 bytes'')
   \<and> opaque_encoding \<lparr>t_dtype = complex128, t_shape = [2], t_bytes = replicate 32 0,
                       t_device = CPU, t_requires_grad = False\<rparr> ''torch.complex128''
       = Inl (ValueError ''Cannot create a numpy array with opaque elements of size 16 bytes'')"
proof -
  let ?t = "\<lparr>t_dtype = complex128, t_shape = [2], t_bytes = replicate 32 0,
             t_device = CPU, t_requires_grad = False\<rparr>"
  have s3: "str_int 3 = ''3''" and s16: "str_int 16 = ''16''"
    by (simp_all add: str_int_def str_nat_values)
  have e: "element_size ?t = 16"
    by (simp add: element_size_def)
  have a: "intermediate_type' 3 =
     Inl (ValueError ''Cannot create a numpy array with opaque elements of size 3 bytes'')"
    using opaque_width_rejection [of 3 ?t "''torch.complex128''", THEN conjunct1]
    by (simp add: s3)
  have b: "intermediate_type' 16 =
     Inl (ValueError ''Cannot create a numpy array with opaque elements of size 16 bytes'')"
    using opaque_width_rejection [of 16 ?t "''torch.complex128''", THEN conjunct1]
    by (simp add: s16)
  have c: "opaque_encoding ?t ''torch.complex128'' =
     Inl (ValueError ''Cannot create a numpy array with opaque elements of size 16 bytes'')"
    using opaque_width_rejection [of 16 ?t "''torch.complex128''", THEN conjunct2]
    by (simp add: s16 e)
  from a b c show ?thesis by simp
qed


section \<open>Decoding what the encoder produced\<close>

lemma str_nat_Suc_0: "str_nat (Suc 0) = ''1''"
  by (simp add: str_nat.simps [of "Suc 0"] digit_char_def)

lemma str_dtype_not_Nil: "str_dtype d \<noteq> []"
  by (simp add: str_dtype_def)

lemma split_dot1_str_dtype: "split_dot1 (str_dtype d) = [''torch'', torch_name d]"
  by (simp add: split_dot1_def str_dtype_def)

lemma torch_getattr_torch_name: "torch_getattr (torch_name d) = Inr (Dtype d)"
  by (cases d) (simp_all add: torch_getattr_def torch_namespace_def all_dtypes_def)

lemma DECODE_MAPPING'_str_dtype:
  "DECODE_MAPPING' (str_dtype d) = (if is_asymmetric' d then Some d else None)"
  by (cases d) (simp_all add: DECODE_MAPPING'_def ASYMMETRIC_TYPES'_eq is_asymmetric'_def str_dtype_def)

lemma decode_str_dtype:
  "torch_dtype self = PyStr (str_dtype d) \<Longrightarrow> decode_torch_dtype' self = Inr d"
  by (simp add: decode_torch_dtype'_def DECODE_MAPPING'_str_dtype str_dtype_not_Nil
      split_dot1_str_dtype torch_getattr_torch_name)

lemma numpy_to_aten_Some: "numpy_to_aten kn = Some d \<Longrightarrow> aten_to_numpy d = Some kn"
  by (auto simp add: numpy_to_aten_def find_Some_iff)

lemma native_order_not_Big: "byteorder (native_dtype k n) \<noteq> Big"
  by (simp add: native_dtype_def order_of_def)

lemma torch_from_numpy_native:
  "aten_to_numpy d = Some (k, n) \<Longrightarrow>
   torch_from_numpy \<lparr>a_dtype = native_dtype k n, a_shape = shp, a_bytes = bs\<rparr> =
     Inr \<lparr>t_dtype = d, t_shape = shp, t_bytes = bs, t_device = CPU, t_requires_grad = False\<rparr>"
  by (simp add: torch_from_numpy_def native_order_not_Big numpy_to_aten_inverse)
    (simp add: native_dtype_def numpy_to_aten_inverse)

lemma to_tensor_native:
  assumes "aten_to_numpy d = Some (k, n)"
  shows "to_tensor \<lparr>data = \<lparr>a_dtype = native_dtype k n, a_shape = shp, a_bytes = bs\<rparr>,
                    numpy_dtype = np_str (native_dtype k n), torch_dtype = x\<rparr> =
     Inr \<lparr>t_dtype = d, t_shape = shp, t_bytes = bs, t_device = CPU, t_requires_grad = False\<rparr>"
proof -
  from aten_to_numpy_valid [OF assms] have "valid_size k n" and "n \<le> max_elsize" and "k \<noteq> KV"
    by simp_all
  then have "is_opaque' (np_str (native_dtype k n)) = Inr False"
    by (simp add: is_opaque'_native del: valid_size.simps)
  then show ?thesis
    by (simp add: to_tensor_def is_opaque_def torch_from_numpy_native [OF assms])
qed

lemma to_tensor_opaque:
  assumes "INTERMEDIATE_MAPPING' (int (dtype_itemsize d)) = Some it"
  shows "to_tensor \<lparr>data = \<lparr>a_dtype = native_dtype Ki (dtype_itemsize d),
                              a_shape = shp, a_bytes = bs\<rparr>,
                    numpy_dtype = np_str (NpDtype (order_of None Ki (dtype_itemsize d)) KV
                                            (dtype_itemsize d)),
                    torch_dtype = PyStr (str_dtype d)\<rparr> =
     Inr \<lparr>t_dtype = d, t_shape = shp, t_bytes = bs, t_device = CPU, t_requires_grad = False\<rparr>"
proof -
  let ?self = "\<lparr>data = \<lparr>a_dtype = native_dtype Ki (dtype_itemsize d),
                              a_shape = shp, a_bytes = bs\<rparr>,
                    numpy_dtype = np_str (NpDtype (order_of None Ki (dtype_itemsize d)) KV
                                            (dtype_itemsize d)),
                    torch_dtype = PyStr (str_dtype d)\<rparr>"
  from INTERMEDIATE_MAPPING'_Some [OF assms]
  have sz: "dtype_itemsize it = dtype_itemsize d"
    and np: "aten_to_numpy it = Some (Ki, dtype_itemsize d)"
    by simp_all
  have op: "is_opaque ?self = Inr True"
    by (simp add: is_opaque_def is_opaque'_np_str)
  have dec: "decode_torch_dtype' ?self = Inr d"
    by (rule decode_str_dtype) simp
  have view: "torch_view \<lparr>t_dtype = it, t_shape = shp, t_bytes = bs, t_device = CPU,
                           t_requires_grad = False\<rparr> d =
      Inr \<lparr>t_dtype = d, t_shape = shp, t_bytes = bs, t_device = CPU, t_requires_grad = False\<rparr>"
    by (simp add: torch_view_def sz)
  show ?thesis
    by (simp add: to_tensor_def op dec view torch_from_numpy_native [OF np] str_dtype_not_Nil)
qed

lemma opaque_sizes:
  "aten_to_numpy d = None \<Longrightarrow> d \<notin> set UNSUPPORTED_TYPES' \<Longrightarrow>
     \<exists>it. INTERMEDIATE_MAPPING' (int (dtype_itemsize d)) = Some it"
  by (cases d) (simp_all add: UNSUPPORTED_TYPES'_eq INTERMEDIATE_MAPPING'_def)

lemma round_trip_supported:
  assumes "t_dtype t \<notin> set UNSUPPORTED_TYPES'"
  shows "\<exists>ta. from_tensor t = Inr ta \<and>
           to_tensor ta = Inr \<lparr>t_dtype = t_dtype t, t_shape = t_shape t, t_bytes = t_bytes t,
                                t_device = CPU, t_requires_grad = False\<rparr>"
proof (cases "aten_to_numpy (t_dtype t)")
  case None
  from opaque_sizes [OF None assms] obtain it
    where it: "INTERMEDIATE_MAPPING' (int (dtype_itemsize (t_dtype t))) = Some it" ..
  show ?thesis
    by (simp add: from_tensor_opaque [OF assms None] opaque_encoding_host [OF it]
        to_tensor_opaque [OF it])
next
  case (Some kn)
  then obtain k n where kn: "aten_to_numpy (t_dtype t) = Some (k, n)"
    by (cases kn) simp
  show ?thesis
    by (simp add: from_tensor_native [OF kn] to_tensor_native [OF kn])
qed

lemma from_tensor_example_f32:
  "from_tensor example_f32 =
     Inr \<lparr>data = \<lparr>a_dtype = NpDtype Little Kf 4, a_shape = [2],
                   a_bytes = [0, 0, 128, 63, 0, 0, 0, 64]\<rparr>,
          numpy_dtype = ''<f4'', torch_dtype = PyStr ''torch.float32''\<rparr>"
proof -
  have "aten_to_numpy (t_dtype example_f32) = Some (Kf, 4)"
    by (simp add: example_f32_def)
  from from_tensor_native [OF this] show ?thesis
    by (simp add: example_f32_def native_dtype_def order_of_def np_str_def str_nat_values
        str_dtype_def)
qed

lemma from_tensor_example_bf16:
  "from_tensor example_bf16 =
     Inr \<lparr>data = \<lparr>a_dtype = NpDtype Little Ki 2, a_shape = [2],
                   a_bytes = [128, 63, 0, 64]\<rparr>,
          numpy_dtype = ''<V2'', torch_dtype = PyStr ''torch.bfloat16''\<rparr>"
proof -
  have u: "t_dtype example_bf16 \<notin> set UNSUPPORTED_TYPES'"
    and n: "aten_to_numpy (t_dtype example_bf16) = None"
    and i: "INTERMEDIATE_MAPPING' (int (dtype_itemsize (t_dtype example_bf16))) = Some int16"
    by (simp_all add: example_bf16_def UNSUPPORTED_TYPES'_eq INTERMEDIATE_MAPPING'_def)
  show ?thesis
    by (simp add: from_tensor_opaque [OF u n] opaque_encoding_host [OF i])
      (simp add: example_bf16_def native_dtype_def order_of_def np_str_def str_nat_values
        str_dtype_def)
qed

lemma is_opaque'_f4: "is_opaque' ''<f4'' = Inr False"
  by (simp add: is_opaque'_def numpy_dtype_of_str_def strip_order_def is_order_char_def
      parse_nat_def is_digit_def digit_val_def order_of_def max_elsize_def)

lemma numpy_to_aten_f4: "numpy_to_aten (Kf, 4) = Some float32"
  by (rule numpy_to_aten_inverse) simp

lemma is_opaque'_V2: "is_opaque' ''<V2'' = Inr True"
  by (simp add: is_opaque'_def numpy_dtype_of_str_def strip_order_def is_order_char_def
      parse_nat_def is_digit_def digit_val_def order_of_def max_elsize_def)

lemma from_tensor_example_native: "from_tensor example_f32 = Inr example_native"
  by (simp add: from_tensor_example_f32 example_native_def example_array_def)

lemma from_tensor_example_opaque: "from_tensor example_bf16 = Inr example_opaque"
  by (simp add: from_tensor_example_bf16 example_opaque_def)

lemma from_array_example:
  "from_array example_array =
     Inr \<lparr>data = example_array, numpy_dtype = ''<f4'', torch_dtype = PyDtype float32\<rparr>"
  by (simp add: from_array_def example_array_def numpy_empty_def torch_from_numpy_def
      numpy_to_aten_f4 np_str_def str_nat_values)

text \<open>
  Claim C1.  For every tensor of a dtype that torch converts to numpy, and for every
  tensor of an asymmetric dtype that is not unsupported (bfloat16 and complex32),
  \<^verbatim>\<open>from_tensor\<close> succeeds and \<^verbatim>\<open>to_tensor\<close> of its result succeeds with a tensor of
  the same dtype, shape and bytes.  (The result is a host tensor outside any graph,
  whatever the device and the graph state of the input were.)
\<close>

theorem round_trip:
  assumes "aten_to_numpy (t_dtype t) \<noteq> None
           \<or> (is_asymmetric' (t_dtype t) \<and> t_dtype t \<notin> set UNSUPPORTED_TYPES')"
  shows "\<exists>ta t'. from_tensor t = Inr ta \<and> to_tensor ta = Inr t'
           \<and> t_dtype t' = t_dtype t \<and> t_shape t' = t_shape t \<and> t_bytes t' = t_bytes t"
proof -
  have u: "t_dtype t \<notin> set UNSUPPORTED_TYPES'"
  proof
    assume x: "t_dtype t \<in> set UNSUPPORTED_TYPES'"
    then have "is_asymmetric' (t_dtype t)"
      by (rule unsupported_asymmetric)
    then have "aten_to_numpy (t_dtype t) = None"
      by (rule aten_to_numpy_asymmetric)
    with assms x show False by simp
  qed
  from round_trip_supported [OF u] obtain ta
    where enc: "from_tensor t = Inr ta"
      and dec: "to_tensor ta = Inr \<lparr>t_dtype = t_dtype t, t_shape = t_shape t,
                                     t_bytes = t_bytes t, t_device = CPU,
                                     t_requires_grad = False\<rparr>"
    by blast
  show ?thesis
    by (intro exI conjI, rule enc, rule dec) simp_all
qed

theorem round_trip_witness:
  "(\<exists>ta t'. from_tensor example_f32 = Inr ta \<and> to_tensor ta = Inr t'
      \<and> t_dtype t' = float32 \<and> t_shape t' = [2] \<and> t_bytes t' = [0, 0, 128, 63, 0, 0, 0, 64])
   \<and> (\<exists>ta t'. from_tensor example_bf16 = Inr ta \<and> to_tensor ta = Inr t'
      \<and> t_dtype t' = bfloat16 \<and> t_shape t' = [2] \<and> t_bytes t' = [128, 63, 0, 64])"
proof -
  have p: "t_dtype example_f32 = float32" "t_shape example_f32 = [2]"
    "t_bytes example_f32 = [0, 0, 128, 63, 0, 0, 0, 64]"
    by (simp_all add: example_f32_def)
  have q: "t_dtype example_bf16 = bfloat16" "t_shape example_bf16 = [2]"
    "t_bytes example_bf16 = [128, 63, 0, 64]"
    by (simp_all add: example_bf16_def)
  have a: "aten_to_numpy (t_dtype example_f32) \<noteq> None
           \<or> (is_asymmetric' (t_dtype example_f32) \<and> t_dtype example_f32 \<notin> set UNSUPPORTED_TYPES')"
    by (simp add: p)
  have b: "aten_to_numpy (t_dtype example_bf16) \<noteq> None
           \<or> (is_asymmetric' (t_dtype example_bf16) \<and> t_dtype example_bf16 \<notin> set UNSUPPORTED_TYPES')"
    by (simp add: q is_asymmetric'_def ASYMMETRIC_TYPES'_eq UNSUPPORTED_TYPES'_eq)
  note r1 = round_trip [OF a, unfolded p]
  note r2 = round_trip [OF b, unfolded q]
  from r1 r2 show ?thesis by (rule conjI)
qed


section \<open>The fall-through to the opaque encoding\<close>

text \<open>
  With the dtypes of torch 2.1, the tensors that fall through are those of the bit dtypes
  and of the two float8 dtypes.
\<close>

lemma non_native_dtypes:
  "aten_to_numpy d = None \<Longrightarrow> \<not> is_asymmetric' d \<Longrightarrow>
     d \<in> {bits1x8, bits2x4, bits4x2, bits8, bits16, float8_e5m2, float8_e4m3fn}"
  by (cases d) (simp_all add: is_asymmetric'_def ASYMMETRIC_TYPES'_eq)

lemma fall_through_result:
  assumes "aten_to_numpy (t_dtype t) = None" and "t_dtype t \<notin> set UNSUPPORTED_TYPES'"
  shows "from_tensor t =
     Inr \<lparr>data = \<lparr>a_dtype = native_dtype Ki (dtype_itemsize (t_dtype t)),
                   a_shape = t_shape t, a_bytes = t_bytes t\<rparr>,
          numpy_dtype = np_str (NpDtype (order_of None Ki (dtype_itemsize (t_dtype t))) KV
                                  (dtype_itemsize (t_dtype t))),
          torch_dtype = PyStr (str_dtype (t_dtype t))\<rparr>"
proof -
  from opaque_sizes [OF assms] obtain it
    where it: "INTERMEDIATE_MAPPING' (int (dtype_itemsize (t_dtype t))) = Some it" ..
  show ?thesis
    by (simp add: from_tensor_opaque [OF assms(2) assms(1)] opaque_encoding_host [OF it])
qed

text \<open>
  Claim C9.  When the dtype of the tensor is not in the asymmetric set and
  \<^verbatim>\<open>tensor.numpy()\<close> raises a TypeError, \<^verbatim>\<open>from_tensor\<close> does not fail: its result is
  that of the opaque encoding, which succeeds: the array is the integer view of the
  element size of the dtype over the shape and bytes of the tensor, \<^verbatim>\<open>numpy_dtype\<close> is
  opaque and denotes the void dtype of that element size, and \<^verbatim>\<open>torch_dtype\<close> names the
  dtype of the tensor.
\<close>

theorem fall_through:
  assumes "\<not> is_asymmetric' (t_dtype t)"
    and "torch_numpy (detach (cpu t)) = Inl (TypeError m)"
  shows "from_tensor t = opaque_encoding (detach (cpu t)) (str_dtype (t_dtype t))
         \<and> (\<exists>ta. from_tensor t = Inr ta \<and> is_opaque ta = Inr True
               \<and> data ta = \<lparr>a_dtype = native_dtype Ki (dtype_itemsize (t_dtype t)),
                              a_shape = t_shape t, a_bytes = t_bytes t\<rparr>
               \<and> numpy_dtype_of_str (numpy_dtype ta) =
                   Inr (NpDtype NotApplicable KV (dtype_itemsize (t_dtype t)))
               \<and> torch_dtype ta = PyStr (str_dtype (t_dtype t)))"
proof -
  from assms(2) have n: "aten_to_numpy (t_dtype t) = None"
    by (simp add: torch_numpy_host split: option.splits prod.splits)
  from assms(1) have u: "t_dtype t \<notin> set UNSUPPORTED_TYPES'"
    using unsupported_asymmetric by blast
  let ?ta = "\<lparr>data = \<lparr>a_dtype = native_dtype Ki (dtype_itemsize (t_dtype t)),
                   a_shape = t_shape t, a_bytes = t_bytes t\<rparr>,
          numpy_dtype = np_str (NpDtype (order_of None Ki (dtype_itemsize (t_dtype t))) KV
                                  (dtype_itemsize (t_dtype t))),
          torch_dtype = PyStr (str_dtype (t_dtype t))\<rparr>"
  have r: "from_tensor t = Inr ?ta"
    using n u by (rule fall_through_result)
  have o: "is_opaque ?ta = Inr True"
    by (simp add: is_opaque_def is_opaque'_np_str)
  have p: "numpy_dtype_of_str (numpy_dtype ?ta) =
      Inr (NpDtype NotApplicable KV (dtype_itemsize (t_dtype t)))"
    by (simp add: numpy_dtype_of_str_np_str order_of_def)
  have "\<exists>ta. from_tensor t = Inr ta \<and> is_opaque ta = Inr True
               \<and> data ta = \<lparr>a_dtype = native_dtype Ki (dtype_itemsize (t_dtype t)),
                              a_shape = t_shape t, a_bytes = t_bytes t\<rparr>
               \<and> numpy_dtype_of_str (numpy_dtype ta) =
                   Inr (NpDtype NotApplicable KV (dtype_itemsize (t_dtype t)))
               \<and> torch_dtype ta = PyStr (str_dtype (t_dtype t))"
    by (intro exI [of _ ?ta] conjI, rule r, rule o, simp, rule p, simp)
  with from_tensor_opaque [OF u n] show ?thesis
    by (rule conjI)
qed

lemma from_tensor_example_bits16:
  "from_tensor example_bits16 =
     Inr \<lparr>data = \<lparr>a_dtype = NpDtype Little Ki 2, a_shape = [3],
                   a_bytes = [1, 0, 2, 0, 3, 0]\<rparr>,
          numpy_dtype = ''<V2'', torch_dtype = PyStr ''torch.bits16''\<rparr>"
proof -
  have n: "aten_to_numpy (t_dtype example_bits16) = None"
    and u: "t_dtype example_bits16 \<notin> set UNSUPPORTED_TYPES'"
    by (simp_all add: example_bits16_def UNSUPPORTED_TYPES'_eq)
  show ?thesis
    by (simp add: fall_through_result [OF n u])
      (simp add: example_bits16_def native_dtype_def order_of_def np_str_def str_nat_values
        str_dtype_def)
qed

lemma from_tensor_example_f8:
  "from_tensor example_f8 =
     Inr \<lparr>data = \<lparr>a_dtype = NpDtype NotApplicable Ki 1, a_shape = [3],
                   a_bytes = [60, 64, 66]\<rparr>,
          numpy_dtype = ''|V1'', torch_dtype = PyStr ''torch.float8_e5m2''\<rparr>"
proof -
  have n: "aten_to_numpy (t_dtype example_f8) = None"
    and u: "t_dtype example_f8 \<notin> set UNSUPPORTED_TYPES'"
    by (simp_all add: example_f8_def UNSUPPORTED_TYPES'_eq)
  show ?thesis
    by (simp add: fall_through_result [OF n u])
      (simp add: example_f8_def native_dtype_def order_of_def np_str_def str_nat_Suc_0
        str_dtype_def)
qed

theorem fall_through_witness:
  "\<not> is_asymmetric' (t_dtype example_bits16)
   \<and> torch_numpy (detach (cpu example_bits16)) =
       Inl (TypeError ''Got unsupported ScalarType bits16'')
   \<and> from_tensor example_bits16 =
       Inr \<lparr>data = \<lparr>a_dtype = NpDtype Little Ki 2, a_shape = [3],
                     a_bytes = [1, 0, 2, 0, 3, 0]\<rparr>,
            numpy_dtype = ''<V2'', torch_dtype = PyStr ''torch.bits16''\<rparr>
   \<and> opaque_encoding (detach (cpu example_bits16)) (str_dtype (t_dtype example_bits16)) =
       from_tensor example_bits16
   \<and> numpy_dtype_of_str ''<V2'' = Inr (NpDtype NotApplicable KV 2)
   \<and> \<not> is_asymmetric' (t_dtype example_f8)
   \<and> torch_numpy (detach (cpu example_f8)) =
       Inl (TypeError ''Got unsupported ScalarType float8_e5m2'')
   \<and> from_tensor example_f8 =
       Inr \<lparr>data = \<lparr>a_dtype = NpDtype NotApplicable Ki 1, a_shape = [3],
                     a_bytes = [60, 64, 66]\<rparr>,
            numpy_dtype = ''|V1'', torch_dtype = PyStr ''torch.float8_e5m2''\<rparr>
   \<and> numpy_dtype_of_str ''|V1'' = Inr (NpDtype NotApplicable KV 1)"
proof -
  have a: "\<not> is_asymmetric' (t_dtype example_bits16)"
    by (simp add: example_bits16_def is_asymmetric'_def ASYMMETRIC_TYPES'_eq)
  have b: "torch_numpy (detach (cpu example_bits16)) =
       Inl (TypeError ''Got unsupported ScalarType bits16'')"
    by (simp add: torch_numpy_host example_bits16_def)
  have a': "\<not> is_asymmetric' (t_dtype example_f8)"
    by (simp add: example_f8_def is_asymmetric'_def ASYMMETRIC_TYPES'_eq)
  have b': "torch_numpy (detach (cpu example_f8)) =
       Inl (TypeError ''Got unsupported ScalarType float8_e5m2'')"
    by (simp add: torch_numpy_host example_f8_def)
  have sz: "dtype_itemsize (t_dtype example_bits16) = 2"
    "dtype_itemsize (t_dtype example_f8) = Suc 0"
    by (simp_all add: example_bits16_def example_f8_def)
  note r = fall_through [OF a b]
  note r' = fall_through [OF a' b']
  from r have c: "opaque_encoding (detach (cpu example_bits16))
        (str_dtype (t_dtype example_bits16)) = from_tensor example_bits16"
    by simp
  from r obtain ta where "from_tensor example_bits16 = Inr ta"
    and "numpy_dtype_of_str (numpy_dtype ta) = Inr (NpDtype NotApplicable KV 2)"
    unfolding sz by blast
  then have d: "numpy_dtype_of_str ''<V2'' = Inr (NpDtype NotApplicable KV 2)"
    by (auto simp add: from_tensor_example_bits16)
  from r' obtain ta' where "from_tensor example_f8 = Inr ta'"
    and "numpy_dtype_of_str (numpy_dtype ta') = Inr (NpDtype NotApplicable KV (Suc 0))"
    unfolding sz by blast
  then have d': "numpy_dtype_of_str ''|V1'' = Inr (NpDtype NotApplicable KV 1)"
    by (auto simp add: from_tensor_example_f8)
  from a b from_tensor_example_bits16 c d a' b' from_tensor_example_f8 d' show ?thesis
    by (intro conjI)
qed


section \<open>Decoding a value that is not opaque\<close>

lemma torch_from_numpy_errors:
  "torch_from_numpy arr = Inl e \<Longrightarrow>
     e = ValueError ''given numpy array has byte order different from the native byte order. Conversion between byte orders is currently not supported.''
     \<or> (\<exists>m. e = TypeError m)"
  by (auto simp add: torch_from_numpy_def split: if_splits option.splits)

lemma to_tensor_plain:
  "is_opaque self = Inr False \<Longrightarrow> to_tensor self = torch_from_numpy (data self)"
  by (simp add: to_tensor_def)

text \<open>
  Claim C10.  For a \<^verbatim>\<open>_NumpyTensor\<close> whose \<^verbatim>\<open>numpy_dtype\<close> is not opaque,
  \<^verbatim>\<open>to_tensor\<close> is \<^verbatim>\<open>torch.from_numpy\<close> of the \<^verbatim>\<open>data\<close> field.  The field
  \<^verbatim>\<open>torch_dtype\<close> is not read: replacing it by any value \<open>x\<close> (None, an empty or a
  malformed string, a dtype object) leaves the result as it is.  The result is never one
  of the ValueErrors that the opaque branch and \<^verbatim>\<open>_decode_torch_dtype\<close> raise for a
  missing or an invalid \<^verbatim>\<open>torch_dtype\<close>.
\<close>

theorem to_tensor_not_opaque:
  assumes "is_opaque self = Inr False"
  shows "to_tensor self = torch_from_numpy (data self)
    \<and> to_tensor (self\<lparr>torch_dtype := x\<rparr>) = to_tensor self
    \<and> to_tensor self \<noteq>
         Inl (ValueError (''Tried to decode a tensor stored as opaque data, but no''
                          @ '' torch dtype was specified''))
    \<and> to_tensor self \<noteq> Inl (ValueError ''Cannot decode an empty dtype.'')
    \<and> to_tensor self \<noteq> Inl (ValueError (''Invalid torch_dtype: '' @ s))"
proof -
  have plain: "to_tensor self = torch_from_numpy (data self)"
    using assms by (rule to_tensor_plain)
  have "is_opaque (self\<lparr>torch_dtype := x\<rparr>) = Inr False"
    using assms by (simp add: is_opaque_def)
  then have same: "to_tensor (self\<lparr>torch_dtype := x\<rparr>) = to_tensor self"
    by (simp add: to_tensor_plain plain)
  have no1: "to_tensor self \<noteq>
         Inl (ValueError (''Tried to decode a tensor stored as opaque data, but no''
                          @ '' torch dtype was specified''))"
    using torch_from_numpy_errors [of "data self"] by (auto simp add: plain)
  have no2: "to_tensor self \<noteq> Inl (ValueError ''Cannot decode an empty dtype.'')"
    using torch_from_numpy_errors [of "data self"] by (auto simp add: plain)
  have no3: "to_tensor self \<noteq> Inl (ValueError (''Invalid torch_dtype: '' @ s))"
    using torch_from_numpy_errors [of "data self"] by (auto simp add: plain)
  from plain same no1 no2 no3 show ?thesis
    by (intro conjI)
qed

theorem to_tensor_not_opaque_witness:
  "is_opaque example_tagged = Inr False
   \<and> to_tensor example_tagged =
       Inr \<lparr>t_dtype = float32, t_shape = [2], t_bytes = [0, 0, 128, 63, 0, 0, 0, 64],
            t_device = CPU, t_requires_grad = False\<rparr>
   \<and> to_tensor (example_tagged\<lparr>torch_dtype := PyNone\<rparr>) = to_tensor example_tagged"
proof -
  have a: "is_opaque example_tagged = Inr False"
    by (simp add: is_opaque_def example_tagged_def is_opaque'_f4)
  note r = to_tensor_not_opaque [OF a, of PyNone "[]"]
  have "torch_from_numpy (data example_tagged) =
       Inr \<lparr>t_dtype = float32, t_shape = [2], t_bytes = [0, 0, 128, 63, 0, 0, 0, 64],
            t_device = CPU, t_requires_grad = False\<rparr>"
    by (simp add: example_tagged_def torch_from_numpy_def numpy_to_aten_f4)
  with r have b: "to_tensor example_tagged =
       Inr \<lparr>t_dtype = float32, t_shape = [2], t_bytes = [0, 0, 128, 63, 0, 0, 0, 64],
            t_device = CPU, t_requires_grad = False\<rparr>"
    by (simp only:)
  from r have c: "to_tensor (example_tagged\<lparr>torch_dtype := PyNone\<rparr>) = to_tensor example_tagged"
    by (simp only:)
  from a b c show ?thesis by (intro conjI)
qed


section \<open>Opacity of what the encoder produced\<close>

lemma takes_opaque_path_iff: "takes_opaque_path t = (aten_to_numpy (t_dtype t) = None)"
  by (auto simp add: takes_opaque_path_def Let_def t_dtype_host native_encoding_host
      aten_to_numpy_asymmetric split: option.splits)

lemma is_opaque_from_tensor:
  assumes "from_tensor t = Inr ta"
  shows "is_opaque ta = Inr (aten_to_numpy (t_dtype t) = None)"
proof -
  from assms have u: "t_dtype t \<notin> set UNSUPPORTED_TYPES'"
    by (auto simp add: from_tensor_def)
  show ?thesis
  proof (cases "aten_to_numpy (t_dtype t)")
    case None
    from opaque_sizes [OF None u] obtain it
      where it: "INTERMEDIATE_MAPPING' (int (dtype_itemsize (t_dtype t))) = Some it" ..
    from assms have "ta = \<lparr>data = \<lparr>a_dtype = native_dtype Ki (dtype_itemsize (t_dtype t)),
                   a_shape = t_shape t, a_bytes = t_bytes t\<rparr>,
          numpy_dtype = np_str (NpDtype (order_of None Ki (dtype_itemsize (t_dtype t))) KV
                                  (dtype_itemsize (t_dtype t))),
          torch_dtype = PyStr (str_dtype (t_dtype t))\<rparr>"
      by (simp add: from_tensor_opaque [OF u None] opaque_encoding_host [OF it])
    then show ?thesis
      by (simp add: None is_opaque_def is_opaque'_np_str)
  next
    case (Some kn)
    then obtain k n where kn: "aten_to_numpy (t_dtype t) = Some (k, n)"
      by (cases kn) simp
    from aten_to_numpy_valid [OF kn] have v: "valid_size k n" and b: "n \<le> max_elsize" and nv: "k \<noteq> KV"
      by simp_all
    from assms have "numpy_dtype ta = np_str (native_dtype k n)"
      by (auto simp add: from_tensor_native [OF kn])
    then show ?thesis
      by (simp add: kn is_opaque_def is_opaque'_native [OF v b] nv)
  qed
qed

lemma is_opaque_from_array:
  assumes "from_array arr = Inr ta"
  shows "is_opaque ta = Inr False"
proof -
  obtain ord k n where d: "a_dtype arr = NpDtype ord k n"
    by (cases "a_dtype arr")
  from assms obtain dd where "numpy_to_aten (k, n) = Some dd"
    by (auto simp add: from_array_def torch_from_numpy_def numpy_empty_def d
        split: sum.splits error.splits if_splits option.splits)
  then have "aten_to_numpy dd = Some (k, n)"
    by (rule numpy_to_aten_Some)
  from aten_to_numpy_valid [OF this] have v: "valid_size k n" and b: "n \<le> max_elsize" and nv: "k \<noteq> KV"
    by simp_all
  from assms have "numpy_dtype ta = np_str (NpDtype ord k n)"
    by (auto simp add: from_array_def d split: sum.splits error.splits)
  then show ?thesis
    by (simp add: is_opaque_def is_opaque'_np_str [OF v b] nv)
qed

text \<open>
  Claim C5.  The \<^verbatim>\<open>numpy_dtype\<close> string of a \<^verbatim>\<open>_NumpyTensor\<close> that \<^verbatim>\<open>from_tensor\<close>
  returned is opaque exactly when \<^verbatim>\<open>from_tensor\<close> took the opaque encoding.  For a
  dtype that torch converts to numpy the string is not opaque, and neither is the string
  of a \<^verbatim>\<open>_NumpyTensor\<close> that \<^verbatim>\<open>from_array\<close> returned.
\<close>

theorem opacity_consistency:
  "(from_tensor t = Inr ta \<longrightarrow> is_opaque ta = Inr (takes_opaque_path t))
   \<and> (from_tensor t = Inr ta \<and> aten_to_numpy (t_dtype t) \<noteq> None \<longrightarrow> is_opaque ta = Inr False)
   \<and> (from_array arr = Inr ta' \<longrightarrow> is_opaque ta' = Inr False)"
  by (auto simp add: is_opaque_from_tensor takes_opaque_path_iff is_opaque_from_array)

theorem opacity_consistency_witness:
  "from_tensor example_f32 = Inr example_native
   \<and> is_opaque example_native = Inr False \<and> \<not> takes_opaque_path example_f32
   \<and> from_tensor example_bf16 = Inr example_opaque
   \<and> is_opaque example_opaque = Inr True \<and> takes_opaque_path example_bf16
   \<and> is_opaque \<lparr>data = example_array, numpy_dtype = ''<f4'', torch_dtype = PyDtype float32\<rparr>
       = Inr False"
proof -
  note n = opacity_consistency [of example_f32 example_native example_array
      "\<lparr>data = example_array, numpy_dtype = ''<f4'', torch_dtype = PyDtype float32\<rparr>"]
  note v = opacity_consistency [of example_bf16 example_opaque example_array
      "\<lparr>data = example_array, numpy_dtype = ''<f4'', torch_dtype = PyDtype float32\<rparr>"]
  have pn: "\<not> takes_opaque_path example_f32"
    by (simp add: takes_opaque_path_iff example_f32_def)
  have pv: "takes_opaque_path example_bf16"
    by (simp add: takes_opaque_path_iff example_bf16_def)
  from n from_tensor_example_native pn have a: "is_opaque example_native = Inr False"
    by simp
  from v from_tensor_example_opaque pv have b: "is_opaque example_opaque = Inr True"
    by simp
  from n from_array_example
  have c: "is_opaque \<lparr>data = example_array, numpy_dtype = ''<f4'', torch_dtype = PyDtype float32\<rparr>
       = Inr False"
    by blast
  from from_tensor_example_native a pn from_tensor_example_opaque b pv c show ?thesis
    by (intro conjI)
qed

section \<open>The dtype string for decoding\<close>

lemma kind_char_not_order: "kind_of_char c = Some k \<Longrightarrow> \<not> is_order_char c"
  by (simp add: is_order_char_def split: if_splits)

lemma strip_order_plain: "\<not> is_order_char c \<Longrightarrow> strip_order (c # ds) = (None, c # ds)"
  by (simp add: strip_order_def)

lemma strip_order_prefixed: "is_order_char oc \<Longrightarrow> strip_order (oc # rest) = (Some oc, rest)"
  by (simp add: strip_order_def)

lemma parse_nat_Some: "parse_nat ds = Some n \<Longrightarrow> ds \<noteq> [] \<and> list_all is_digit ds"
  by (simp add: parse_nat_def split: if_splits)

lemma numpy_dtype_of_str_typestring:
  assumes "bo = [] \<or> (\<exists>oc. bo = [oc] \<and> is_order_char oc)"
    and "kind_of_char c = Some k" and "parse_nat ds = Some n"
    and "n \<le> max_elsize" and "valid_size k n"
  shows "numpy_dtype_of_str (bo @ [c] @ ds) =
           Inr (NpDtype (order_of (case bo of [] \<Rightarrow> None | oc # _ \<Rightarrow> Some oc) k n) k n)"
proof -
  from parse_nat_Some [OF assms(3)] have ds: "ds \<noteq> []"
    by simp
  from assms(1) show ?thesis
  proof
    assume "bo = []"
    with assms(2-5) ds show ?thesis
      by (simp add: numpy_dtype_of_str_def strip_order_plain kind_char_not_order
          del: kind_of_char.simps valid_size.simps)
  next
    assume "\<exists>oc. bo = [oc] \<and> is_order_char oc"
    then obtain oc where "bo = [oc]" and "is_order_char oc"
      by blast
    with assms(2-5) ds show ?thesis
      by (simp add: numpy_dtype_of_str_def strip_order_prefixed
          del: kind_of_char.simps valid_size.simps)
  qed
qed

lemma replace_append: "replace a b (xs @ ys) = replace a b xs @ replace a b ys"
  by (simp add: replace_def)

lemma replace_order: "is_order_char oc \<Longrightarrow> replace (CHR ''V'') b [oc] = [oc]"
  by (auto simp add: replace_def is_order_char_def)

lemma replace_Nil: "replace a b [] = []"
  by (simp add: replace_def)

lemma replace_void_string:
  assumes "bo = [] \<or> (\<exists>oc. bo = [oc] \<and> is_order_char oc)" and "list_all is_digit ds"
  shows "replace (CHR ''V'') (CHR ''i'') (bo @ ''V'' @ ds) = bo @ ''i'' @ ds"
proof -
  from assms(1) have rb: "replace (CHR ''V'') (CHR ''i'') bo = bo"
  proof
    assume "bo = []"
    then show ?thesis by (simp add: replace_Nil)
  next
    assume "\<exists>oc. bo = [oc] \<and> is_order_char oc"
    then obtain oc where "bo = [oc]" and "is_order_char oc" by blast
    then show ?thesis by (simp add: replace_order)
  qed
  have rd: "replace (CHR ''V'') (CHR ''i'') ds = ds"
    using assms(2) not_digit_markers(2) by (rule replace_digits)
  show ?thesis
    unfolding replace_append rb rd by (simp add: replace_def)
qed

lemma decoder_dtype'_void_string:
  assumes "bo = [] \<or> (\<exists>oc. bo = [oc] \<and> is_order_char oc)"
    and "parse_nat ds = Some n" and "n \<le> max_elsize"
  shows "numpy_dtype_of_str (bo @ ''V'' @ ds) = Inr (NpDtype NotApplicable KV n)"
    and "is_opaque' (bo @ ''V'' @ ds) = Inr True"
    and "decoder_dtype' (bo @ ''V'' @ ds) = Inr (bo @ ''i'' @ ds)"
proof -
  have k: "kind_of_char (CHR ''V'') = Some KV"
    by simp
  have v: "valid_size KV n"
    by simp
  from numpy_dtype_of_str_typestring [OF assms(1) k assms(2) assms(3) v]
  show p: "numpy_dtype_of_str (bo @ ''V'' @ ds) = Inr (NpDtype NotApplicable KV n)"
    by (simp add: order_of_def)
  then show o: "is_opaque' (bo @ ''V'' @ ds) = Inr True"
    by (simp add: is_opaque'_def)
  from parse_nat_Some [OF assms(2)] have "list_all is_digit ds"
    by simp
  from replace_void_string [OF assms(1) this] o
  show "decoder_dtype' (bo @ ''V'' @ ds) = Inr (bo @ ''i'' @ ds)"
    by (simp add: decoder_dtype'_def)
qed

lemma numpy_dtype_of_str_int_string:
  assumes "bo = [] \<or> (\<exists>oc. bo = [oc] \<and> is_order_char oc)"
    and "parse_nat ds = Some n" and "n \<le> max_elsize" and "valid_size Ki n"
  shows "numpy_dtype_of_str (bo @ ''i'' @ ds) =
           Inr (NpDtype (order_of (case bo of [] \<Rightarrow> None | oc # _ \<Rightarrow> Some oc) Ki n) Ki n)"
proof -
  have k: "kind_of_char (CHR ''i'') = Some Ki"
    by simp
  from numpy_dtype_of_str_typestring [OF assms(1) k assms(2) assms(3) assms(4)]
  show ?thesis
    by simp
qed

lemma valid_size_Ki_small: "valid_size Ki n \<Longrightarrow> n \<le> max_elsize"
  by (auto simp add: max_elsize_def)

lemma decoder_dtype'_inverse:
  assumes "valid_size Ki n"
  shows "decoder_dtype' (replace (CHR ''i'') (CHR ''V'') (np_str (NpDtype ord Ki n)))
     = Inr (np_str (NpDtype ord Ki n))"
proof -
  from assms have "n \<le> max_elsize"
    by (rule valid_size_Ki_small)
  then have "is_opaque' (np_str (NpDtype ord KV n)) = Inr True"
    by (simp add: is_opaque'_np_str)
  then show ?thesis
    by (simp add: decoder_dtype'_def replace_np_str_int replace_np_str_void)
qed

lemma numpy_dtype_of_str_codes:
  "numpy_dtype_of_str ''V'' = Inr (NpDtype NotApplicable KV 0)"
  "numpy_dtype_of_str ''i'' = Inr (NpDtype Little Ki 4)"
  by (simp_all add: numpy_dtype_of_str_def strip_order_def is_order_char_def type_code_def
      order_of_def)

text \<open>
  Claim C6, as the specification states it, fails on the code.  The string \<^verbatim>\<open>V\<close>, the
  one-character code of the void dtype, is opaque and denotes elements of no bytes;
  \<^verbatim>\<open>_decoder_dtype\<close> returns \<^verbatim>\<open>i\<close> for it, the code of the C int, whose elements have
  four bytes.  The width is not kept.
\<close>

theorem decoder_dtype_width_counterexample:
  "is_opaque' ''V'' = Inr True
   \<and> numpy_dtype_of_str ''V'' = Inr (NpDtype NotApplicable KV 0)
   \<and> decoder_dtype' ''V'' = Inr ''i''
   \<and> numpy_dtype_of_str ''i'' = Inr (NpDtype Little Ki 4)"
  by (simp add: decoder_dtype'_def is_opaque'_def numpy_dtype_of_str_codes replace_def)

text \<open>
  Claim C6, amended.  \<^verbatim>\<open>_decoder_dtype\<close> returns a string that is not opaque as it is,
  and an opaque string with every V replaced by i.  For the strings that the encoder
  writes, an optional byte-order character \<open>bo\<close>, the letter V and the digits \<open>ds\<close> of a
  width \<open>n\<close>, this is the substitution of the specification: the string is opaque, it
  denotes the void dtype of width \<open>n\<close>, and \<^verbatim>\<open>_decoder_dtype\<close> returns \<open>bo\<close>, the letter i
  and the same digits, which denotes the integer dtype of width \<open>n\<close> in the byte order
  that \<open>bo\<close> names when numpy has an integer of that width.  Applied to the string that
  the encoder writes for an integer dtype (its type string with i replaced by V), it
  returns the type string of the integer dtype.
\<close>

theorem decoder_dtype_encoder_strings:
  "(is_opaque' s = Inr False \<longrightarrow> decoder_dtype' s = Inr s)
   \<and> (is_opaque' s = Inr True \<longrightarrow>
        decoder_dtype' s = Inr (replace (CHR ''V'') (CHR ''i'') s))
   \<and> ((bo = [] \<or> (\<exists>oc. bo = [oc] \<and> is_order_char oc))
        \<and> parse_nat ds = Some n \<and> n \<le> max_elsize \<longrightarrow>
        numpy_dtype_of_str (bo @ ''V'' @ ds) = Inr (NpDtype NotApplicable KV n)
        \<and> is_opaque' (bo @ ''V'' @ ds) = Inr True
        \<and> decoder_dtype' (bo @ ''V'' @ ds) = Inr (bo @ ''i'' @ ds)
        \<and> (valid_size Ki n \<longrightarrow>
             numpy_dtype_of_str (bo @ ''i'' @ ds) =
               Inr (NpDtype (order_of (case bo of [] \<Rightarrow> None | oc # _ \<Rightarrow> Some oc) Ki n)
                      Ki n)))
   \<and> (valid_size Ki m \<longrightarrow>
        decoder_dtype' (replace (CHR ''i'') (CHR ''V'') (np_str (NpDtype ord Ki m)))
          = Inr (np_str (NpDtype ord Ki m)))"
proof (intro conjI impI)
  assume "is_opaque' s = Inr False"
  then show "decoder_dtype' s = Inr s"
    by (simp add: decoder_dtype'_def)
next
  assume "is_opaque' s = Inr True"
  then show "decoder_dtype' s = Inr (replace (CHR ''V'') (CHR ''i'') s)"
    by (simp add: decoder_dtype'_def)
next
  assume a: "(bo = [] \<or> (\<exists>oc. bo = [oc] \<and> is_order_char oc))
        \<and> parse_nat ds = Some n \<and> n \<le> max_elsize"
  then have f: "bo = [] \<or> (\<exists>oc. bo = [oc] \<and> is_order_char oc)"
    and p: "parse_nat ds = Some n" and b: "n \<le> max_elsize"
    by blast+
  from decoder_dtype'_void_string [OF f p b]
  show "numpy_dtype_of_str (bo @ ''V'' @ ds) = Inr (NpDtype NotApplicable KV n)"
    and "is_opaque' (bo @ ''V'' @ ds) = Inr True"
    and "decoder_dtype' (bo @ ''V'' @ ds) = Inr (bo @ ''i'' @ ds)"
    by blast+
  assume "valid_size Ki n"
  with f p b
  show "numpy_dtype_of_str (bo @ ''i'' @ ds) =
               Inr (NpDtype (order_of (case bo of [] \<Rightarrow> None | oc # _ \<Rightarrow> Some oc) Ki n)
                      Ki n)"
    by (rule numpy_dtype_of_str_int_string)
next
  assume "valid_size Ki m"
  then show "decoder_dtype' (replace (CHR ''i'') (CHR ''V'') (np_str (NpDtype ord Ki m)))
          = Inr (np_str (NpDtype ord Ki m))"
    by (rule decoder_dtype'_inverse)
qed

theorem decoder_dtype_encoder_strings_witness:
  "is_opaque' ''<f4'' = Inr False \<and> decoder_dtype' ''<f4'' = Inr ''<f4''
   \<and> numpy_dtype_of_str ''<V2'' = Inr (NpDtype NotApplicable KV 2)
   \<and> is_opaque' ''<V2'' = Inr True \<and> decoder_dtype' ''<V2'' = Inr ''<i2''
   \<and> numpy_dtype_of_str ''<i2'' = Inr (NpDtype Little Ki 2)
   \<and> decoder_dtype' (replace (CHR ''i'') (CHR ''V'') ''<i2'') = Inr ''<i2''"
proof -
  note r = decoder_dtype_encoder_strings [of "''<f4''" "''<''" "''2''" 2 2 Little]
  have h: "(''<'' = [] \<or> (\<exists>oc. ''<'' = [oc] \<and> is_order_char oc))
        \<and> parse_nat ''2'' = Some 2 \<and> 2 \<le> max_elsize"
    by (simp add: is_order_char_def parse_nat_def is_digit_def digit_val_def max_elsize_def)
  have v: "valid_size Ki 2"
    by simp
  have n: "np_str (NpDtype Little Ki 2) = ''<i2''"
    by (simp add: np_str_def str_nat_values)
  from r is_opaque'_f4 have a: "decoder_dtype' ''<f4'' = Inr ''<f4''"
    by blast
  from r h have b: "numpy_dtype_of_str (''<'' @ ''V'' @ ''2'') = Inr (NpDtype NotApplicable KV 2)"
    and c: "is_opaque' (''<'' @ ''V'' @ ''2'') = Inr True"
    and d: "decoder_dtype' (''<'' @ ''V'' @ ''2'') = Inr (''<'' @ ''i'' @ ''2'')"
    by blast+
  from r h v have e: "numpy_dtype_of_str (''<'' @ ''i'' @ ''2'') =
      Inr (NpDtype (order_of (case ''<'' of [] \<Rightarrow> None | oc # _ \<Rightarrow> Some oc) Ki 2) Ki 2)"
    by blast
  from r v have f: "decoder_dtype' (replace (CHR ''i'') (CHR ''V'') (np_str (NpDtype Little Ki 2)))
          = Inr (np_str (NpDtype Little Ki 2))"
    by blast
  from is_opaque'_f4 a b c d e f show ?thesis
    unfolding n by (simp add: order_of_def)
qed


section \<open>Consistency of the two tags\<close>

lemma from_tensor_tag:
  assumes "from_tensor t = Inr ta"
  shows "torch_dtype ta = PyStr (str_dtype (t_dtype t))"
proof -
  from assms have u: "t_dtype t \<notin> set UNSUPPORTED_TYPES'"
    by (auto simp add: from_tensor_def)
  show ?thesis
  proof (cases "aten_to_numpy (t_dtype t)")
    case None
    from opaque_sizes [OF None u] obtain it
      where it: "INTERMEDIATE_MAPPING' (int (dtype_itemsize (t_dtype t))) = Some it" ..
    from assms show ?thesis
      by (auto simp add: from_tensor_opaque [OF u None] opaque_encoding_host [OF it])
  next
    case (Some kn)
    then obtain k n where kn: "aten_to_numpy (t_dtype t) = Some (k, n)"
      by (cases kn) simp
    from assms show ?thesis
      by (auto simp add: from_tensor_native [OF kn])
  qed
qed

lemma from_tensor_opaque_dtype:
  assumes "from_tensor t = Inr ta" and "is_opaque ta = Inr True"
  shows "numpy_dtype_of_str (numpy_dtype ta) =
           Inr (NpDtype NotApplicable KV (dtype_itemsize (t_dtype t)))"
proof -
  from assms have n: "aten_to_numpy (t_dtype t) = None"
    by (simp add: is_opaque_from_tensor)
  from assms(1) have u: "t_dtype t \<notin> set UNSUPPORTED_TYPES'"
    by (auto simp add: from_tensor_def)
  from opaque_sizes [OF n u] obtain it
    where it: "INTERMEDIATE_MAPPING' (int (dtype_itemsize (t_dtype t))) = Some it" ..
  from assms(1) have "numpy_dtype ta =
      np_str (NpDtype (order_of None Ki (dtype_itemsize (t_dtype t))) KV
                (dtype_itemsize (t_dtype t)))"
    by (auto simp add: from_tensor_opaque [OF u n] opaque_encoding_host [OF it])
  then show ?thesis
    by (simp add: numpy_dtype_of_str_np_str order_of_def)
qed

lemma to_tensor_missing_tag:
  assumes "is_opaque self = Inr True" and "\<not> truthy (torch_dtype self)"
  shows "to_tensor self =
           Inl (ValueError (''Tried to decode a tensor stored as opaque data, but no''
                            @ '' torch dtype was specified''))"
  using assms by (simp add: to_tensor_def)

text \<open>
  Claim C8.  In an opaque \<^verbatim>\<open>_NumpyTensor\<close> that \<^verbatim>\<open>from_tensor\<close> returned,
  \<^verbatim>\<open>torch_dtype\<close> is a non-empty string, \<^verbatim>\<open>_decode_torch_dtype\<close> resolves it to the
  dtype of the tensor, and \<^verbatim>\<open>numpy_dtype\<close> denotes the void dtype whose width is the
  element size of that dtype.  \<^verbatim>\<open>to_tensor\<close> of an opaque \<^verbatim>\<open>_NumpyTensor\<close> whose
  \<^verbatim>\<open>torch_dtype\<close> is None or empty raises the ValueError of the missing dtype.
\<close>

theorem joint_consistency:
  "(from_tensor t = Inr ta \<and> is_opaque ta = Inr True \<longrightarrow>
      torch_dtype ta = PyStr (str_dtype (t_dtype t))
      \<and> truthy (torch_dtype ta)
      \<and> decode_torch_dtype' ta = Inr (t_dtype t)
      \<and> numpy_dtype_of_str (numpy_dtype ta) =
          Inr (NpDtype NotApplicable KV (dtype_itemsize (t_dtype t))))
   \<and> (is_opaque self = Inr True \<and> \<not> truthy (torch_dtype self) \<longrightarrow>
      to_tensor self =
        Inl (ValueError (''Tried to decode a tensor stored as opaque data, but no''
                         @ '' torch dtype was specified'')))"
proof (intro conjI impI)
  assume a: "from_tensor t = Inr ta \<and> is_opaque ta = Inr True"
  then show tag: "torch_dtype ta = PyStr (str_dtype (t_dtype t))"
    by (simp add: from_tensor_tag)
  then show "truthy (torch_dtype ta)"
    by (simp add: str_dtype_not_Nil)
  from tag show "decode_torch_dtype' ta = Inr (t_dtype t)"
    by (rule decode_str_dtype)
  from a show "numpy_dtype_of_str (numpy_dtype ta) =
          Inr (NpDtype NotApplicable KV (dtype_itemsize (t_dtype t)))"
    by (simp add: from_tensor_opaque_dtype)
next
  assume "is_opaque self = Inr True \<and> \<not> truthy (torch_dtype self)"
  then show "to_tensor self =
        Inl (ValueError (''Tried to decode a tensor stored as opaque data, but no''
                         @ '' torch dtype was specified''))"
    by (simp add: to_tensor_missing_tag)
qed

theorem joint_consistency_witness:
  "from_tensor example_bf16 = Inr example_opaque
   \<and> is_opaque example_opaque = Inr True
   \<and> decode_torch_dtype' example_opaque = Inr bfloat16
   \<and> numpy_dtype_of_str ''<V2'' = Inr (NpDtype NotApplicable KV 2)
   \<and> dtype_itemsize bfloat16 = 2
   \<and> to_tensor (example_opaque\<lparr>torch_dtype := PyNone\<rparr>) =
       Inl (ValueError ''Tried to decode a tensor stored as opaque data, but no torch dtype was specified'')"
proof -
  have op: "is_opaque example_opaque = Inr True"
    by (simp add: is_opaque_def example_opaque_def is_opaque'_V2)
  have op': "is_opaque (example_opaque\<lparr>torch_dtype := PyNone\<rparr>) = Inr True
             \<and> \<not> truthy (torch_dtype (example_opaque\<lparr>torch_dtype := PyNone\<rparr>))"
    by (simp add: is_opaque_def example_opaque_def is_opaque'_V2)
  note r = joint_consistency [of example_bf16 example_opaque
      "example_opaque\<lparr>torch_dtype := PyNone\<rparr>"]
  have td: "t_dtype example_bf16 = bfloat16" and nd: "numpy_dtype example_opaque = ''<V2''"
    by (simp_all add: example_bf16_def example_opaque_def)
  from r from_tensor_example_opaque op
  have a: "decode_torch_dtype' example_opaque = Inr bfloat16"
    and b: "numpy_dtype_of_str ''<V2'' = Inr (NpDtype NotApplicable KV 2)"
    by (simp_all add: td nd)
  from r op'
  have c: "to_tensor (example_opaque\<lparr>torch_dtype := PyNone\<rparr>) =
       Inl (ValueError ''Tried to decode a tensor stored as opaque data, but no torch dtype was specified'')"
    by simp
  have d: "dtype_itemsize bfloat16 = 2"
    by simp
  from from_tensor_example_opaque op a b d c show ?thesis
    by (intro conjI)
qed


section \<open>Resolving the name of a dtype\<close>

lemma DECODE_MAPPING'_misses:
  "DECODE_MAPPING' ''torch.not_a_dtype'' = None" "DECODE_MAPPING' ''torch.int8'' = None"
  "DECODE_MAPPING' '''' = None" "DECODE_MAPPING' ''bogus'' = None"
  "DECODE_MAPPING' ''torch.Tensor'' = None"
  by (simp_all add: DECODE_MAPPING'_def ASYMMETRIC_TYPES'_eq str_dtype_def)

lemma torch_getattr_examples:
  "torch_getattr ''not_a_dtype'' =
     Inl (AttributeError (''module '' @ quoted ''torch'' @ '' has no attribute ''
                          @ quoted ''not_a_dtype''))"
  "torch_getattr ''int8'' = Inr (Dtype int8)"
  "torch_getattr ''Tensor'' = Inr Other"
  by (simp_all add: torch_getattr_def torch_namespace_def all_dtypes_def)

lemma decode_torch_dtype'_examples:
  "torch_dtype self = PyStr ''torch.int8'' \<Longrightarrow> decode_torch_dtype' self = Inr int8"
  "torch_dtype self = PyStr '''' \<Longrightarrow>
     decode_torch_dtype' self = Inl (ValueError ''Cannot decode an empty dtype.'')"
  "torch_dtype self = PyNone \<Longrightarrow>
     decode_torch_dtype' self = Inl (ValueError ''Cannot decode an empty dtype.'')"
  "torch_dtype self = PyStr ''bogus'' \<Longrightarrow>
     decode_torch_dtype' self = Inl (ValueError ''Invalid torch_dtype: bogus'')"
  "torch_dtype self = PyStr ''torch.Tensor'' \<Longrightarrow>
     decode_torch_dtype' self = Inl (ValueError ''Invalid torch_dtype: torch.Tensor'')"
  "torch_dtype self = PyDtype d \<Longrightarrow>
     decode_torch_dtype' self = Inl (TypeError ''torch_dtype must be a string.'')"
  by (simp_all add: decode_torch_dtype'_def DECODE_MAPPING'_misses split_dot1_def
      torch_getattr_examples)

text \<open>
  Claim C2.  The resolver returns int8 for \<^verbatim>\<open>"torch.int8"\<close> and raises ValueError for
  the empty name, for \<^verbatim>\<open>"bogus"\<close> and for the name of an attribute of torch that is not a
  dtype (\<open>decode_torch_dtype'_examples\<close>).  For a name that torch does not have, such as
  \<^verbatim>\<open>"torch.not_a_dtype"\<close>, the \<^verbatim>\<open>getattr\<close> call has no default, so the function
  leaves with an AttributeError, not with the ValueError that its docstring announces
  for a name that cannot be found in torch.
\<close>

theorem decode_absent_identifier:
  assumes "torch_dtype self = PyStr ''torch.not_a_dtype''"
  shows "decode_torch_dtype' self =
           Inl (AttributeError (''module '' @ quoted ''torch'' @ '' has no attribute ''
                                @ quoted ''not_a_dtype''))
         \<and> decode_torch_dtype' self \<noteq> Inl (ValueError ''Invalid torch_dtype: torch.not_a_dtype'')"
  using assms
  by (simp add: decode_torch_dtype'_def DECODE_MAPPING'_misses split_dot1_def
      torch_getattr_examples)

theorem decode_absent_identifier_witness:
  "decode_torch_dtype' (example_tagged\<lparr>torch_dtype := PyStr ''torch.not_a_dtype''\<rparr>) =
     Inl (AttributeError (''module '' @ quoted ''torch'' @ '' has no attribute ''
                          @ quoted ''not_a_dtype''))"
proof -
  have "torch_dtype (example_tagged\<lparr>torch_dtype := PyStr ''torch.not_a_dtype''\<rparr>)
          = PyStr ''torch.not_a_dtype''"
    by simp
  from decode_absent_identifier [OF this] show ?thesis
    by (rule conjunct1)
qed


section \<open>Encoding a numpy array\<close>

text \<open>
  Claim C7.  When \<^verbatim>\<open>from_array\<close> succeeds, \<^verbatim>\<open>data\<close> is the array and
  \<^verbatim>\<open>numpy_dtype\<close> is the type string of its dtype, but \<^verbatim>\<open>torch_dtype\<close> is the dtype
  object of the probe tensor and not a string: the field is declared \<^verbatim>\<open>Optional[str]\<close>,
  \<^verbatim>\<open>from_tensor\<close> stores \<^verbatim>\<open>str(tensor.dtype)\<close>, and \<^verbatim>\<open>_decode_torch_dtype\<close> rejects
  the value with its TypeError.
\<close>

theorem from_array_tag_not_string:
  assumes "from_array arr = Inr ta"
  shows "data ta = arr \<and> numpy_dtype ta = np_str (a_dtype arr)
         \<and> (\<exists>d. torch_dtype ta = PyDtype d
                 \<and> aten_to_numpy d = Some (kind (a_dtype arr), itemsize (a_dtype arr)))
         \<and> torch_dtype ta \<noteq> PyStr s
         \<and> decode_torch_dtype' ta = Inl (TypeError ''torch_dtype must be a string.'')"
proof -
  from assms obtain d
    where n: "numpy_to_aten (kind (a_dtype arr), itemsize (a_dtype arr)) = Some d"
      and ta: "ta = \<lparr>data = arr, numpy_dtype = np_str (a_dtype arr), torch_dtype = PyDtype d\<rparr>"
    by (auto simp add: from_array_def torch_from_numpy_def numpy_empty_def
        split: sum.splits error.splits if_splits option.splits)
  from n have "aten_to_numpy d = Some (kind (a_dtype arr), itemsize (a_dtype arr))"
    by (rule numpy_to_aten_Some)
  moreover have "decode_torch_dtype' ta = Inl (TypeError ''torch_dtype must be a string.'')"
    by (rule decode_torch_dtype'_examples(6) [of _ d]) (simp add: ta)
  ultimately show ?thesis
    by (simp add: ta)
qed

theorem from_array_tag_not_string_witness:
  "from_array example_array =
     Inr \<lparr>data = example_array, numpy_dtype = ''<f4'', torch_dtype = PyDtype float32\<rparr>
   \<and> PyDtype float32 \<noteq> PyStr ''torch.float32''
   \<and> decode_torch_dtype'
        \<lparr>data = example_array, numpy_dtype = ''<f4'', torch_dtype = PyDtype float32\<rparr>
       = Inl (TypeError ''torch_dtype must be a string.'')"
proof -
  note r = from_array_tag_not_string [OF from_array_example, of "''torch.float32''"]
  from r have a: "decode_torch_dtype'
        \<lparr>data = example_array, numpy_dtype = ''<f4'', torch_dtype = PyDtype float32\<rparr>
       = Inl (TypeError ''torch_dtype must be a string.'')"
    by blast
  have b: "PyDtype float32 \<noteq> PyStr ''torch.float32''"
    by simp
  from from_array_example b a show ?thesis
    by (intro conjI)
qed

text \<open>
  An array in host byte order whose dtype torch does not have is refused with the
  module's TypeError, which names the dtype.
\<close>

lemma from_array_unrepresentable:
  assumes "numpy_to_aten (kind (a_dtype arr), itemsize (a_dtype arr)) = None"
    and "byteorder (a_dtype arr) \<noteq> Big"
  shows "from_array arr =
           Inl (TypeError (''Cannot serialize an array with dtype '' @ np_name (a_dtype arr)
                           @ '' as a _NumpyTensor.''))"
  using assms by (simp add: from_array_def torch_from_numpy_def numpy_empty_def)

end
